theory Spec2Isabelle
  imports Complex_Main "HOL-Library.Word"
begin

section \<open>SAC bindings: format detection, reading and writing\<close>

text \<open>
  A shallow embedding of \<^verbatim>\<open>obspy/sac/core.py\<close>: the functions \<^verbatim>\<open>isSAC\<close>,
  \<^verbatim>\<open>readSAC\<close> and \<^verbatim>\<open>writeSAC\<close>. Python exceptions are values of the type
  \<open>error\<close>; a function that can raise returns \<open>error + 'a\<close> with \<open>Inl\<close> for the
  exception.
\<close>

datatype error =
    IOError | StructError | FormatError | SacError | KeyError | AttributeError
  | ValueError | TypeError | NotImplementedError

type_synonym byte = "8 word"

subsection \<open>Format detection\<close>

datatype endian = Little | Big

text \<open>
  \<^verbatim>\<open>struct.unpack('<i', data)[0]\<close> and \<^verbatim>\<open>struct.unpack('>i', data)[0]\<close>: a
  two's complement 32-bit integer from exactly four bytes; any other length raises
  \<^verbatim>\<open>struct.error\<close>.
\<close>

definition signed32 :: "int \<Rightarrow> int" where
  "signed32 u = (if u \<ge> 2147483648 then u - 4294967296 else u)"

fun struct_unpack_i :: "endian \<Rightarrow> byte list \<Rightarrow> error + int" where
  "struct_unpack_i Little [b0, b1, b2, b3] =
     Inr (signed32 (uint b0 + 256 * uint b1 + 65536 * uint b2 + 16777216 * uint b3))"
| "struct_unpack_i Big [b0, b1, b2, b3] =
     Inr (signed32 (uint b3 + 256 * uint b2 + 65536 * uint b1 + 16777216 * uint b0))"
| "struct_unpack_i _ _ = Inl StructError"

text \<open>
  The files \<^verbatim>\<open>isSAC\<close> probes: a path with no entry cannot be opened
  (\<^verbatim>\<open>open\<close> raises), any other path holds the bytes of the file.
  \<^verbatim>\<open>f.seek(316); f.read(4)\<close> returns the at most four bytes from offset 316 on.
  Everything up to the first \<^verbatim>\<open>struct.unpack\<close> is inside the \<^verbatim>\<open>try\<close>; the second
  \<^verbatim>\<open>struct.unpack\<close> is outside of it, so an exception there would leave \<^verbatim>\<open>isSAC\<close>.
\<close>

definition isSAC :: "(string \<rightharpoonup> byte list) \<Rightarrow> string \<Rightarrow> error + bool" where
  "isSAC fs filename =
     (case fs filename of
        None \<Rightarrow> Inr False
      | Some content \<Rightarrow>
          (let data = take 4 (drop (4 * 70 + 4 * 9) content) in
           case struct_unpack_i Little data of
             Inl _ \<Rightarrow> Inr False
           | Inr npts \<Rightarrow>
               (let st_size = int (length content);
                    sizecheck = st_size - (632 + 4 * npts)
                in if sizecheck \<noteq> 0 then
                     (case struct_unpack_i Big data of
                        Inl e \<Rightarrow> Inl e
                      | Inr npts' \<Rightarrow>
                          (let sizecheck' = st_size - (632 + 4 * npts')
                           in if sizecheck' \<noteq> 0 then Inr False else Inr True))
                   else Inr True)))"

subsection \<open>Python values and conversions\<close>

text \<open>
  The values of header fields and of trace metadata: Python floats (idealised as reals;
  IEEE rounding is not modelled), Python integers and byte strings.
\<close>

datatype hval = HFloat real | HInt int | HStr string

text \<open>\<^verbatim>\<open>value == c\<close> for a numeric constant \<open>c\<close>: numbers compare by value, a string
  is never equal to a number.\<close>

fun py_eq_num :: "hval \<Rightarrow> real \<Rightarrow> bool" where
  "py_eq_num (HFloat r) c = (r = c)"
| "py_eq_num (HInt i) c = (of_int i = c)"
| "py_eq_num (HStr s) c = False"

text \<open>\<^verbatim>\<open>str.strip()\<close>: removes leading and trailing whitespace (space, tab, line feed,
  vertical tab, form feed, carriage return).\<close>

definition is_space :: "char \<Rightarrow> bool" where
  "is_space c = (let n = (of_char c :: nat) in n = 32 \<or> (9 \<le> n \<and> n \<le> 13))"

definition py_strip :: "string \<Rightarrow> string" where
  "py_strip s = rev (dropWhile is_space (rev (dropWhile is_space s)))"

definition is_digit :: "char \<Rightarrow> bool" where
  "is_digit c = (48 \<le> (of_char c :: nat) \<and> (of_char c :: nat) \<le> 57)"

definition digit_char :: "nat \<Rightarrow> char" where
  "digit_char d = char_of (48 + d)"

fun digits_acc :: "nat \<Rightarrow> string \<Rightarrow> nat option" where
  "digits_acc a [] = Some a"
| "digits_acc a (c # cs) =
     (if is_digit c then digits_acc (10 * a + (of_char c - 48)) cs else None)"

text \<open>\<^verbatim>\<open>int(s)\<close> for a string: surrounding whitespace, an optional sign, and at least
  one decimal digit.\<close>

definition int_of_string :: "string \<Rightarrow> int option" where
  "int_of_string s =
     (case py_strip s of
        [] \<Rightarrow> None
      | c # cs \<Rightarrow>
          if c = CHR ''-'' then
            (if cs = [] then None else map_option (\<lambda>n. - int n) (digits_acc 0 cs))
          else if c = CHR ''+'' then
            (if cs = [] then None else map_option int (digits_acc 0 cs))
          else map_option int (digits_acc 0 (c # cs)))"

text \<open>\<^verbatim>\<open>float(s)\<close> for a string: surrounding whitespace, an optional sign, a decimal
  literal with an optional fraction, and an optional exponent (\<^verbatim>\<open>e\<close> or \<^verbatim>\<open>E\<close>, an
  optional sign, at least one digit). The literals for infinity and not-a-number are no
  real numbers: they are outside the model and count as not convertible.\<close>

definition unsigned_decimal :: "string \<Rightarrow> real option" where
  "unsigned_decimal s =
     (let ip = takeWhile (\<lambda>c. c \<noteq> CHR ''.'') s;
          rest = dropWhile (\<lambda>c. c \<noteq> CHR ''.'') s;
          fp = (case rest of [] \<Rightarrow> [] | _ # f \<Rightarrow> f)
      in if ip = [] \<and> fp = [] then None
         else (case (digits_acc 0 ip, digits_acc 0 fp) of
                 (Some a, Some b) \<Rightarrow> Some (real a + real b / 10 ^ length fp)
               | _ \<Rightarrow> None))"

definition exponent_of_string :: "string \<Rightarrow> int option" where
  "exponent_of_string s =
     (case s of
        [] \<Rightarrow> None
      | c # cs \<Rightarrow>
          if c = CHR ''-'' then
            (if cs = [] then None else map_option (\<lambda>n. - int n) (digits_acc 0 cs))
          else if c = CHR ''+'' then
            (if cs = [] then None else map_option int (digits_acc 0 cs))
          else map_option int (digits_acc 0 (c # cs)))"

definition unsigned_float :: "string \<Rightarrow> real option" where
  "unsigned_float s =
     (let mant = takeWhile (\<lambda>c. c \<noteq> CHR ''e'' \<and> c \<noteq> CHR ''E'') s;
          rest = dropWhile (\<lambda>c. c \<noteq> CHR ''e'' \<and> c \<noteq> CHR ''E'') s
      in case rest of
           [] \<Rightarrow> unsigned_decimal mant
         | _ # ex \<Rightarrow>
             (case (unsigned_decimal mant, exponent_of_string ex) of
                (Some m, Some k) \<Rightarrow>
                  Some (if 0 \<le> k then m * 10 ^ nat k else m / 10 ^ nat (- k))
              | _ \<Rightarrow> None))"

definition float_of_string :: "string \<Rightarrow> real option" where
  "float_of_string s =
     (case py_strip s of
        [] \<Rightarrow> None
      | c # cs \<Rightarrow>
          if c = CHR ''-'' then map_option uminus (unsigned_float cs)
          else if c = CHR ''+'' then unsigned_float cs
          else unsigned_float (c # cs))"

text \<open>\<^verbatim>\<open>int(v)\<close> truncates a float towards zero; \<^verbatim>\<open>float(v)\<close>; both raise
  \<^verbatim>\<open>ValueError\<close> on a string that is not a literal.\<close>

fun py_int :: "hval \<Rightarrow> error + int" where
  "py_int (HInt i) = Inr i"
| "py_int (HFloat r) = Inr (if 0 \<le> r then \<lfloor>r\<rfloor> else \<lceil>r\<rceil>)"
| "py_int (HStr s) = (case int_of_string s of None \<Rightarrow> Inl ValueError | Some i \<Rightarrow> Inr i)"

fun py_float :: "hval \<Rightarrow> error + real" where
  "py_float (HFloat r) = Inr r"
| "py_float (HInt i) = Inr (of_int i)"
| "py_float (HStr s) = (case float_of_string s of None \<Rightarrow> Inl ValueError | Some r \<Rightarrow> Inr r)"

text \<open>Decimal formatting: \<^verbatim>\<open>"%d"\<close>, and \<^verbatim>\<open>"%02d"\<close>, \<^verbatim>\<open>"%03d"\<close> which pad with
  zeros on the left up to a minimum width.\<close>

fun decimal :: "nat \<Rightarrow> string" where
  "decimal n = (if n < 10 then [digit_char n] else decimal (n div 10) @ [digit_char (n mod 10)])"

declare decimal.simps [simp del]

definition zero_pad :: "nat \<Rightarrow> nat \<Rightarrow> string" where
  "zero_pad w n = replicate (w - length (decimal n)) (CHR ''0'') @ decimal n"

subsection \<open>Timestamps\<close>

text \<open>
  Modelled from the spec: \<^verbatim>\<open>UTCDateTime\<close> of \<^verbatim>\<open>obspy.core\<close>, which is not part of
  the sources at hand. The spec asks for timestamp arithmetic that adds and subtracts
  seconds, decomposes a timestamp into year, day of year, hour, minute, second and a
  sub-second microsecond component, and recomposes it from the same. A timestamp is the
  number of microseconds since 1970-01-01T00:00:00 in the proleptic Gregorian calendar.
\<close>

type_synonym UTCDateTime = int

definition is_leap :: "int \<Rightarrow> bool" where
  "is_leap y = (y mod 4 = 0 \<and> (y mod 100 \<noteq> 0 \<or> y mod 400 = 0))"

definition days_in_year :: "int \<Rightarrow> int" where
  "days_in_year y = (if is_leap y then 366 else 365)"

text \<open>Days from 1970-01-01 to the first of January of year \<open>y\<close>.\<close>

definition days_before_year :: "int \<Rightarrow> int" where
  "days_before_year y =
     365 * (y - 1970) + ((y - 1) div 4 - (y - 1) div 100 + (y - 1) div 400) - 477"

text \<open>\<open>year_from y d\<close>: the year and the zero-based day of that year which lie \<open>d\<close>
  days after the first of January of year \<open>y\<close>.\<close>

function year_from :: "int \<Rightarrow> int \<Rightarrow> int \<times> int" where
  "year_from y d =
     (if d < 0 then year_from (y - 1) (d + days_in_year (y - 1))
      else if days_in_year y \<le> d then year_from (y + 1) (d - days_in_year y)
      else (y, d))"
  by pat_completeness auto
termination
  by (relation "measure (\<lambda>(y, d). if d < 0 then nat (367 - d) else nat d)")
     (auto simp add: days_in_year_def split: if_splits)

declare year_from.simps [simp del]

definition utc_year :: "UTCDateTime \<Rightarrow> int" where
  "utc_year t = fst (year_from 1970 (t div 86400000000))"

definition utc_julday :: "UTCDateTime \<Rightarrow> int" where
  "utc_julday t = snd (year_from 1970 (t div 86400000000)) + 1"

definition utc_hour :: "UTCDateTime \<Rightarrow> int" where
  "utc_hour t = (t mod 86400000000) div 3600000000"

definition utc_minute :: "UTCDateTime \<Rightarrow> int" where
  "utc_minute t = (t mod 3600000000) div 60000000"

definition utc_second :: "UTCDateTime \<Rightarrow> int" where
  "utc_second t = (t mod 60000000) div 1000000"

definition utc_microsecond :: "UTCDateTime \<Rightarrow> int" where
  "utc_microsecond t = t mod 1000000"

text \<open>\<^verbatim>\<open>start.strftime("%j")\<close>: the day of the year as three decimal digits.\<close>

definition strftime_j :: "UTCDateTime \<Rightarrow> string" where
  "strftime_j t = zero_pad 3 (nat (utc_julday t))"

text \<open>The timestamp with the given year, day of year, hour, minute, second and
  microsecond.\<close>

definition utc_of_fields :: "int \<Rightarrow> int \<Rightarrow> int \<Rightarrow> int \<Rightarrow> int \<Rightarrow> int \<Rightarrow> UTCDateTime" where
  "utc_of_fields year julday hour minute second microsecond =
     (((days_before_year year + (julday - 1)) * 24 + hour) * 60 + minute) * 60000000
       + second * 1000000 + microsecond"

text \<open>Adding and subtracting a number of seconds, to the nearest microsecond.\<close>

definition us_of_seconds :: "real \<Rightarrow> int" where
  "us_of_seconds r = \<lfloor>r * 1000000 + 1 / 2\<rfloor>"

definition utc_add :: "UTCDateTime \<Rightarrow> real \<Rightarrow> UTCDateTime" where
  "utc_add t r = t + us_of_seconds r"

definition utc_sub :: "UTCDateTime \<Rightarrow> real \<Rightarrow> UTCDateTime" where
  "utc_sub t r = t - us_of_seconds r"

subsection \<open>The SAC header object\<close>

text \<open>
  The tables of \<^verbatim>\<open>core.py\<close>: \<^verbatim>\<open>convert_dict\<close> (SAC name on the left, trace
  attribute on the right) and \<^verbatim>\<open>sac_extra\<close>. A Python dict with distinct keys is
  iterated in some fixed order; the list gives one.
\<close>

definition convert_dict :: "(string \<times> string) list" where
  "convert_dict =
     [(''npts'', ''npts''), (''delta'', ''delta''), (''kcmpnm'', ''channel''),
      (''kstnm'', ''station''), (''scale'', ''calib''), (''knetwk'', ''network''),
      (''khole'', ''location'')]"

definition sac_extra_floats :: "string list" where
  "sac_extra_floats =
     [''depmin'', ''depmax'', ''odelta'', ''b'', ''e'', ''o'', ''a'', ''t0'', ''t1'',
      ''t2'', ''t3'', ''t4'', ''t5'', ''t6'', ''t7'', ''t8'', ''t9'', ''f'', ''stla'', ''stlo'',
      ''stel'', ''stdp'', ''evla'', ''evlo'', ''evdp'', ''mag'', ''user0'', ''user1'', ''user2'',
      ''user3'', ''user4'', ''user5'', ''user6'', ''user7'', ''user8'', ''user9'', ''dist'',
      ''az'', ''baz'', ''gcarc'', ''depmen'', ''cmpaz'', ''cmpinc'']"

definition sac_extra_ints :: "string list" where
  "sac_extra_ints =
     [''nzyear'', ''nzjday'',
      ''nzhour'', ''nzmin'', ''nzsec'', ''nzmsec'', ''nvhdr'', ''norid'', ''nevid'', ''nwfid'',
      ''iftype'', ''idep'', ''iztype'', ''iinst'', ''istreg'', ''ievreg'', ''ievtype'',
      ''iqual'', ''isynth'', ''imagtyp'', ''imagsrc'', ''leven'', ''lpspol'', ''lovrok'',
      ''lcalda'']"

definition sac_extra_strings :: "string list" where
  "sac_extra_strings =
     [''kevnm'', ''ko'', ''ka'', ''kt0'', ''kt1'', ''kt2'', ''kt3'', ''kt4'',
      ''kt5'', ''kt6'', ''kt7'', ''kt8'', ''kt9'', ''kf'', ''kuser0'', ''kuser1'', ''kuser2'',
      ''kdatrd'', ''kinst'']"

definition sac_extra :: "string list" where
  "sac_extra = sac_extra_floats @ sac_extra_ints @ sac_extra_strings"

text \<open>
  Modelled from the spec: the header schema and the header object \<^verbatim>\<open>ReadSac\<close> of
  \<^verbatim>\<open>obspy.sac.sacio\<close>, which is not part of the sources at hand. The spec describes
  a closed schema in which every field has a kind (32-bit float, 32-bit signed integer
  or fixed-width character block) and an undefined sentinel of that kind (\<open>-12345\<close>),
  accessed through typed getters and setters; every field is always present. The names
  are the ones \<^verbatim>\<open>core.py\<close> uses, in the order of the SAC layout: floats first, then
  integers, then strings (\<^verbatim>\<open>kevnm\<close> is 16 characters wide, every other string 8).
  Integers of the header are not bounded to 32 bits here.
\<close>

datatype kind = Float32 | Int32 | FixedString nat

definition kind :: "string \<Rightarrow> kind option" where
  "kind name =
     (if name \<in> set ([''delta'', ''scale''] @ sac_extra_floats) then Some Float32
      else if name \<in> set ([''npts''] @ sac_extra_ints) then Some Int32
      else if name = ''kevnm'' then Some (FixedString 16)
      else if name \<in> set ([''kstnm'', ''kcmpnm'', ''knetwk'', ''khole''] @ sac_extra_strings)
        then Some (FixedString 8)
      else None)"

record ReadSac =
  hf :: "string \<Rightarrow> real"
  hi :: "string \<Rightarrow> int"
  hs :: "string \<Rightarrow> string"
  seis :: "real list"

text \<open>Modelled from the spec: a fresh header holds the sentinel in every field.\<close>

definition InitArrays :: "ReadSac" where
  "InitArrays = \<lparr>hf = (\<lambda>_. - 12345), hi = (\<lambda>_. - 12345), hs = (\<lambda>_. ''-12345  ''), seis = []\<rparr>"

text \<open>Modelled from the spec: the typed getter; a name outside of the schema is an
  error.\<close>

definition GetHvalue :: "ReadSac \<Rightarrow> string \<Rightarrow> error + hval" where
  "GetHvalue t name =
     (case kind name of
        None \<Rightarrow> Inl SacError
      | Some Float32 \<Rightarrow> Inr (HFloat (hf t name))
      | Some Int32 \<Rightarrow> Inr (HInt (hi t name))
      | Some (FixedString w) \<Rightarrow> Inr (HStr (hs t name)))"

text \<open>Modelled from the spec: the typed setter. The value is converted to the kind of
  the field, as Python's \<^verbatim>\<open>float\<close> and \<^verbatim>\<open>int\<close> do (\<^verbatim>\<open>writeSAC\<close> stores the string
  of \<^verbatim>\<open>strftime("%j")\<close> and the float \<^verbatim>\<open>microsecond / 1e3\<close> in integer fields); a
  string is cut or padded with spaces to the width of its field. A value that cannot be
  converted, a value that is not a string for a string field, and a name outside of the
  schema raise, and the header stays as it was.\<close>

definition SetHvalue :: "ReadSac \<Rightarrow> string \<Rightarrow> hval \<Rightarrow> error + ReadSac" where
  "SetHvalue t name v =
     (case kind name of
        None \<Rightarrow> Inl SacError
      | Some Float32 \<Rightarrow>
          (case py_float v of Inl e \<Rightarrow> Inl e | Inr r \<Rightarrow> Inr (t\<lparr>hf := (hf t)(name := r)\<rparr>))
      | Some Int32 \<Rightarrow>
          (case py_int v of Inl e \<Rightarrow> Inl e | Inr i \<Rightarrow> Inr (t\<lparr>hi := (hi t)(name := i)\<rparr>))
      | Some (FixedString w) \<Rightarrow>
          (case v of
             HStr s \<Rightarrow> Inr (t\<lparr>hs := (hs t)(name := take w (s @ replicate (w - length s) (CHR '' '')))\<rparr>)
           | _ \<Rightarrow> Inl TypeError))"

text \<open>Modelled from the spec: \<^verbatim>\<open>fromarray\<close> fills a fresh header from the sample
  block, the sample interval and the begin offset.\<close>

definition fromarray :: "ReadSac \<Rightarrow> real list \<Rightarrow> hval \<Rightarrow> hval \<Rightarrow> error + ReadSac" where
  "fromarray t trace begin delta =
     (case SetHvalue (t\<lparr>seis := trace\<rparr>) ''npts'' (HInt (int (length trace))) of
        Inl e \<Rightarrow> Inl e
      | Inr t1 \<Rightarrow>
          (case SetHvalue t1 ''delta'' delta of
             Inl e \<Rightarrow> Inl e
           | Inr t2 \<Rightarrow> SetHvalue t2 ''b'' begin))"

text \<open>Modelled from the spec: the base reference time of a header, assembled from
  \<^verbatim>\<open>nzyear\<close>, \<^verbatim>\<open>nzjday\<close>, \<^verbatim>\<open>nzhour\<close>, \<^verbatim>\<open>nzmin\<close>, \<^verbatim>\<open>nzsec\<close> and \<^verbatim>\<open>nzmsec\<close>
  (the attribute \<^verbatim>\<open>t.starttime\<close>).\<close>

definition starttime :: "ReadSac \<Rightarrow> UTCDateTime" where
  "starttime t =
     utc_of_fields (hi t ''nzyear'') (hi t ''nzjday'') (hi t ''nzhour'') (hi t ''nzmin'')
       (hi t ''nzsec'') (hi t ''nzmsec'' * 1000)"

subsection \<open>Files\<close>

text \<open>
  Modelled from the spec: the binary codec of \<^verbatim>\<open>obspy.sac.sacio\<close>, which is not part
  of the sources at hand. A SAC file is the header and the sample block it encodes; the
  codec itself (byte layout, byte order) is taken to be lossless, as the spec states.
  The disk is the list of the files written, the latest first. Reading fails with
  \<^verbatim>\<open>IOError\<close> where there is no file and with \<^verbatim>\<open>FormatError\<close> where the file is no
  SAC file or its size is not the one its \<^verbatim>\<open>npts\<close> declares; a header-only read
  stops after the header. A failing write (the \<^verbatim>\<open>IOError\<close> of the spec) is outside
  of the model: \<^verbatim>\<open>WriteSacBinary\<close> always stores the file here, and nothing below is a
  statement about write failures.
\<close>

datatype fnode = SacFile ReadSac | OtherFile

type_synonym disk = "(string \<times> fnode) list"

definition ReadSacFile :: "disk \<Rightarrow> string \<Rightarrow> error + ReadSac" where
  "ReadSacFile d filename =
     (case map_of d filename of
        None \<Rightarrow> Inl IOError
      | Some OtherFile \<Rightarrow> Inl FormatError
      | Some (SacFile t) \<Rightarrow>
          if hi t ''npts'' = int (length (seis t)) then Inr t else Inl FormatError)"

definition ReadSacHeader :: "disk \<Rightarrow> string \<Rightarrow> error + ReadSac" where
  "ReadSacHeader d filename =
     (case map_of d filename of
        None \<Rightarrow> Inl IOError
      | Some OtherFile \<Rightarrow> Inl FormatError
      | Some (SacFile t) \<Rightarrow>
          if hi t ''npts'' = int (length (seis t)) then Inr (t\<lparr>seis := []\<rparr>) else Inl FormatError)"

definition WriteSacBinary :: "ReadSac \<Rightarrow> string \<Rightarrow> disk \<Rightarrow> disk" where
  "WriteSacBinary t filename d = (filename, SacFile t) # d"

subsection \<open>Traces\<close>

text \<open>
  Modelled from the spec: \<^verbatim>\<open>Trace\<close> and \<^verbatim>\<open>Stream\<close> of \<^verbatim>\<open>obspy.core\<close>. A trace has
  its metadata \<^verbatim>\<open>stats\<close> (a dictionary), in it the start time and the optional
  dictionary \<^verbatim>\<open>stats['sac']\<close> of the extra fields, and its samples, which are absent
  in a trace that was built from a header alone. A stream is a list of traces.
\<close>

record Trace =
  stats :: "string \<rightharpoonup> hval"
  stats_sac :: "(string \<rightharpoonup> hval) option"
  stats_starttime :: UTCDateTime
  data :: "real list option"

type_synonym Stream = "Trace list"

subsection \<open>Reading\<close>

text \<open>
  The first loop of \<^verbatim>\<open>readSAC\<close>: every entry of \<^verbatim>\<open>convert_dict\<close> is read from the
  header; a string is stripped and the stripped sentinel becomes the empty string.
\<close>

fun convert_header ::
  "ReadSac \<Rightarrow> (string \<times> string) list \<Rightarrow> (string \<rightharpoonup> hval) \<Rightarrow> error + (string \<rightharpoonup> hval)" where
  "convert_header t [] header = Inr header"
| "convert_header t ((i, j) # rest) header =
     (case GetHvalue t i of
        Inl e \<Rightarrow> Inl e
      | Inr value \<Rightarrow>
          convert_header t rest
            (header(j \<mapsto>
               (case value of
                  HStr s \<Rightarrow>
                    (let value' = py_strip s
                     in if value' = ''-12345'' then HStr [] else HStr value')
                | _ \<Rightarrow> value))))"

text \<open>The second loop: every name of \<^verbatim>\<open>sac_extra\<close> is copied as it is.\<close>

fun extra_header ::
  "ReadSac \<Rightarrow> string list \<Rightarrow> (string \<rightharpoonup> hval) \<Rightarrow> error + (string \<rightharpoonup> hval)" where
  "extra_header t [] header_sac = Inr header_sac"
| "extra_header t (i # rest) header_sac =
     (case GetHvalue t i of
        Inl e \<Rightarrow> Inl e
      | Inr value \<Rightarrow> extra_header t rest (header_sac(i \<mapsto> value)))"

text \<open>
  \<^verbatim>\<open>readSAC(filename, headonly)\<close>. The \<^verbatim>\<open>NotImplementedError\<close> of the last branch is
  what the spec calls \<^verbatim>\<open>UnsupportedTimeReferenceError\<close>.
\<close>

definition readSAC :: "disk \<Rightarrow> string \<Rightarrow> bool \<Rightarrow> error + Stream" where
  "readSAC d filename headonly =
     (case (if headonly then ReadSacHeader d filename else ReadSacFile d filename) of
        Inl e \<Rightarrow> Inl e
      | Inr t \<Rightarrow>
     (case convert_header t convert_dict Map.empty of
        Inl e \<Rightarrow> Inl e
      | Inr header0 \<Rightarrow>
     (case header0 ''calib'' of
        None \<Rightarrow> Inl KeyError
      | Some calib \<Rightarrow>
     (let header = (if py_eq_num calib (- 12345) then header0(''calib'' \<mapsto> HFloat 1) else header0)
      in
     (case extra_header t sac_extra Map.empty of
        Inl e \<Rightarrow> Inl e
      | Inr header_sac \<Rightarrow>
     (case header_sac ''iztype'' of
        None \<Rightarrow> Inl KeyError
      | Some iztype \<Rightarrow>
     (case (if py_eq_num iztype 11 then
              (case header_sac ''b'' of
                 None \<Rightarrow> Inl KeyError
               | Some b \<Rightarrow>
                   (case py_float b of
                      Inl e \<Rightarrow> Inl e
                    | Inr r \<Rightarrow> Inr (utc_add (starttime t) r)))
            else if py_eq_num iztype 9 \<or> py_eq_num iztype (- 12345) then Inr (starttime t)
            else Inl NotImplementedError) of
        Inl e \<Rightarrow> Inl e
      | Inr start \<Rightarrow>
          Inr [\<lparr>stats = header, stats_sac = Some header_sac, stats_starttime = start,
                data = (if headonly then None else Some (seis t))\<rparr>])))))))"

subsection \<open>Writing\<close>

text \<open>
  \<^verbatim>\<open>os.path.splitext\<close>: the extension starts at the last dot of the last path
  component, unless that component has only dots before it.
\<close>

definition rfind :: "string \<Rightarrow> char \<Rightarrow> int" where
  "rfind p c =
     (if c \<in> set p then int (length p) - 1 - int (length (takeWhile (\<lambda>x. x \<noteq> c) (rev p)))
      else - 1)"

definition splitext :: "string \<Rightarrow> string \<times> string" where
  "splitext p =
     (let sepIndex = rfind p (CHR ''/'');
          dotIndex = rfind p (CHR ''.'')
      in if dotIndex > sepIndex \<and>
            list_ex (\<lambda>c. c \<noteq> CHR ''.'')
              (take (nat (dotIndex - (sepIndex + 1))) (drop (nat (sepIndex + 1)) p))
         then (take (nat dotIndex) p, drop (nat dotIndex) p)
         else (p, []))"

text \<open>
  The two overlay loops of \<^verbatim>\<open>writeSAC\<close>. The body of each is
  \<^verbatim>\<open>try: t.SetHvalue(...) except: pass\<close>: a missing key of the metadata and an
  exception of \<^verbatim>\<open>SetHvalue\<close> both leave the header as it is.
\<close>

fun overlay_common :: "Trace \<Rightarrow> (string \<times> string) list \<Rightarrow> ReadSac \<Rightarrow> ReadSac" where
  "overlay_common trace [] t = t"
| "overlay_common trace ((j, k) # rest) t =
     overlay_common trace rest
       (case stats trace k of
          None \<Rightarrow> t
        | Some v \<Rightarrow> (case SetHvalue t j v of Inl _ \<Rightarrow> t | Inr t' \<Rightarrow> t'))"

fun overlay_extra :: "Trace \<Rightarrow> string list \<Rightarrow> ReadSac \<Rightarrow> ReadSac" where
  "overlay_extra trace [] t = t"
| "overlay_extra trace (i # rest) t =
     overlay_extra trace rest
       (case stats_sac trace of
          None \<Rightarrow> t
        | Some m \<Rightarrow>
            (case m i of
               None \<Rightarrow> t
             | Some v \<Rightarrow> (case SetHvalue t i v of Inl _ \<Rightarrow> t | Inr t' \<Rightarrow> t')))"

text \<open>
  The start time to encode: \<^verbatim>\<open>except KeyError\<close> covers a missing \<^verbatim>\<open>sac\<close>,
  \<^verbatim>\<open>iztype\<close> or \<^verbatim>\<open>b\<close>, not the \<^verbatim>\<open>ValueError\<close> of \<^verbatim>\<open>float\<close>.
\<close>

definition write_start :: "Trace \<Rightarrow> error + UTCDateTime" where
  "write_start trace =
     (let start = stats_starttime trace
      in case stats_sac trace of
           None \<Rightarrow> Inr start
         | Some m \<Rightarrow>
             (case m ''iztype'' of
                None \<Rightarrow> Inr start
              | Some iztype \<Rightarrow>
                  if py_eq_num iztype 11 then
                    (case m ''b'' of
                       None \<Rightarrow> Inr start
                     | Some b \<Rightarrow>
                         (case py_float b of
                            Inl e \<Rightarrow> Inl e
                          | Inr r \<Rightarrow> Inr (utc_sub start r)))
                  else if py_eq_num iztype 9 \<or> py_eq_num iztype (- 12345) then Inr start
                  else Inr start))"

text \<open>A sequence of \<^verbatim>\<open>t.SetHvalue(name, value)\<close> statements outside of any
  \<^verbatim>\<open>try\<close>: the first exception ends it.\<close>

fun SetHvalues :: "ReadSac \<Rightarrow> (string \<times> hval) list \<Rightarrow> error + ReadSac" where
  "SetHvalues t [] = Inr t"
| "SetHvalues t ((name, v) # rest) =
     (case SetHvalue t name v of Inl e \<Rightarrow> Inl e | Inr t' \<Rightarrow> SetHvalues t' rest)"

text \<open>
  The body of the loop of \<^verbatim>\<open>writeSAC\<close> up to the choice of the file name: the header
  object built for one trace. A trace without samples counts as one with an empty sample
  block; \<^verbatim>\<open>trace.stats.delta\<close> raises when the metadata has no \<^verbatim>\<open>delta\<close>.
\<close>

definition write_header :: "Trace \<Rightarrow> error + ReadSac" where
  "write_header trace =
     (case stats trace ''delta'' of
        None \<Rightarrow> Inl AttributeError
      | Some delta \<Rightarrow>
     (case fromarray InitArrays (case data trace of None \<Rightarrow> [] | Some xs \<Rightarrow> xs)
             (HFloat 0) delta of
        Inl e \<Rightarrow> Inl e
      | Inr t0 \<Rightarrow>
     (let t1 = overlay_common trace convert_dict t0;
          t2 = overlay_extra trace sac_extra t1
      in
     (case write_start trace of
        Inl e \<Rightarrow> Inl e
      | Inr start \<Rightarrow>
          SetHvalues t2
            [(''nzyear'', HInt (utc_year start)),
             (''nzjday'', HStr (strftime_j start)),
             (''nzhour'', HInt (utc_hour start)),
             (''nzmin'', HInt (utc_minute start)),
             (''nzsec'', HInt (utc_second start)),
             (''nzmsec'', HFloat (of_int (utc_microsecond start) / 1000))]))))"

text \<open>
  The loop of \<^verbatim>\<open>writeSAC\<close>, with its variables \<^verbatim>\<open>i\<close> and \<^verbatim>\<open>filename\<close>; the result
  is the disk after the call and the exception that ended it, if any.
\<close>

fun write_traces ::
  "string \<Rightarrow> string \<Rightarrow> Stream \<Rightarrow> nat \<Rightarrow> string \<Rightarrow> disk \<Rightarrow> disk \<times> error option" where
  "write_traces base ext [] i filename d = (d, None)"
| "write_traces base ext (trace # rest) i filename d =
     (case write_header trace of
        Inl e \<Rightarrow> (d, Some e)
      | Inr t \<Rightarrow>
          (let filename' = (if i \<noteq> 0 then base @ zero_pad 2 i @ ext else filename)
           in write_traces base ext rest (i + 1) filename' (WriteSacBinary t filename' d)))"

definition writeSAC :: "Stream \<Rightarrow> string \<Rightarrow> disk \<Rightarrow> disk \<times> error option" where
  "writeSAC stream filename d =
     (case splitext filename of
        (base, ext) \<Rightarrow> write_traces base ext stream 0 filename d)"

subsection \<open>Auxiliary notions\<close>

text \<open>
  One step of an overlay loop: \<^verbatim>\<open>try: t.SetHvalue(name, value) except: pass\<close>, where
  the value may be missing from the metadata; and what such a step leaves in an integer
  and in a float field.
\<close>

definition try_set :: "ReadSac \<Rightarrow> string \<Rightarrow> hval option \<Rightarrow> ReadSac" where
  "try_set t name vo =
     (case vo of
        None \<Rightarrow> t
      | Some v \<Rightarrow> (case SetHvalue t name v of Inl _ \<Rightarrow> t | Inr t' \<Rightarrow> t'))"

definition try_int :: "hval option \<Rightarrow> int \<Rightarrow> int" where
  "try_int vo old =
     (case vo of None \<Rightarrow> old | Some v \<Rightarrow> (case py_int v of Inl _ \<Rightarrow> old | Inr i \<Rightarrow> i))"

definition try_float :: "hval option \<Rightarrow> real \<Rightarrow> real" where
  "try_float vo old =
     (case vo of None \<Rightarrow> old | Some v \<Rightarrow> (case py_float v of Inl _ \<Rightarrow> old | Inr r \<Rightarrow> r))"

text \<open>\<^verbatim>\<open>trace.stats.sac[name]\<close>, where \<^verbatim>\<open>sac\<close> itself may be missing.\<close>

definition sac_lookup :: "Trace \<Rightarrow> string \<Rightarrow> hval option" where
  "sac_lookup trace name = (case stats_sac trace of None \<Rightarrow> None | Some m \<Rightarrow> m name)"

text \<open>The samples \<^verbatim>\<open>writeSAC\<close> takes from a trace.\<close>

definition samples :: "Trace \<Rightarrow> real list" where
  "samples trace = (case data trace of None \<Rightarrow> [] | Some xs \<Rightarrow> xs)"

text \<open>
  The traces \<^verbatim>\<open>writeSAC\<close> can write: the metadata has a \<^verbatim>\<open>delta\<close> that converts to
  a float, and the start time block raises nothing.
\<close>

definition writable :: "Trace \<Rightarrow> bool" where
  "writable trace =
     ((case stats trace ''delta'' of
         None \<Rightarrow> False
       | Some dv \<Rightarrow> (case py_float dv of Inl _ \<Rightarrow> False | Inr _ \<Rightarrow> True))
      \<and> (case write_start trace of Inl _ \<Rightarrow> False | Inr _ \<Rightarrow> True))"

text \<open>The path of the file for the trace at index \<open>i\<close>, as the loop computes it.\<close>

definition sac_path :: "string \<Rightarrow> string \<Rightarrow> string \<Rightarrow> nat \<Rightarrow> string" where
  "sac_path filename base ext i = (if i \<noteq> 0 then base @ zero_pad 2 i @ ext else filename)"

text \<open>
  What \<^verbatim>\<open>readSAC\<close> builds from a header object: the stripped string of a common field,
  the common metadata, the extra fields, and the trace.
\<close>

definition strip_sentinel :: "string \<Rightarrow> string" where
  "strip_sentinel s = (if py_strip s = ''-12345'' then [] else py_strip s)"

definition common_stats :: "ReadSac \<Rightarrow> (string \<rightharpoonup> hval)" where
  "common_stats t =
     [''npts'' \<mapsto> HInt (hi t ''npts''),
      ''delta'' \<mapsto> HFloat (hf t ''delta''),
      ''channel'' \<mapsto> HStr (strip_sentinel (hs t ''kcmpnm'')),
      ''station'' \<mapsto> HStr (strip_sentinel (hs t ''kstnm'')),
      ''calib'' \<mapsto> HFloat (if hf t ''scale'' = - 12345 then 1 else hf t ''scale''),
      ''network'' \<mapsto> HStr (strip_sentinel (hs t ''knetwk'')),
      ''location'' \<mapsto> HStr (strip_sentinel (hs t ''khole''))]"

definition extra_stats :: "ReadSac \<Rightarrow> (string \<rightharpoonup> hval)" where
  "extra_stats t =
     (\<lambda>n. if n \<in> set sac_extra
          then (case GetHvalue t n of Inl _ \<Rightarrow> None | Inr v \<Rightarrow> Some v) else None)"

definition read_trace :: "ReadSac \<Rightarrow> bool \<Rightarrow> UTCDateTime \<Rightarrow> Trace" where
  "read_trace t headonly start =
     \<lparr>stats = common_stats t, stats_sac = Some (extra_stats t), stats_starttime = start,
      data = (if headonly then None else Some (seis t))\<rparr>"

subsection \<open>Sample inputs\<close>

text \<open>
  A header as it is read from a file with two samples, the reference time
  2009-04-10T12:30:15.123 (day 100 of 2009), \<open>b = 1.5\<close> and the given \<^verbatim>\<open>iztype\<close>; and
  a trace with two samples that starts at 2009-04-10T12:30:15.123456, with the given
  extra fields.
\<close>

definition example_header :: "int \<Rightarrow> ReadSac" where
  "example_header z =
     \<lparr>hf = (\<lambda>_. - 12345)(''delta'' := 1 / 2, ''b'' := 3 / 2),
      hi = (\<lambda>_. - 12345)(''npts'' := 2, ''iztype'' := z, ''nzyear'' := 2009, ''nzjday'' := 100,
             ''nzhour'' := 12, ''nzmin'' := 30, ''nzsec'' := 15, ''nzmsec'' := 123),
      hs = (\<lambda>_. ''-12345  '')(''kstnm'' := ''ABC     ''),
      seis = [1, 2]\<rparr>"

definition example_trace :: "(string \<rightharpoonup> hval) option \<Rightarrow> Trace" where
  "example_trace extra =
     \<lparr>stats = [''delta'' \<mapsto> HFloat (1 / 2), ''npts'' \<mapsto> HInt 2, ''station'' \<mapsto> HStr ''ABC''],
      stats_sac = extra,
      stats_starttime = 1239366615123456,
      data = Some [1, 2]\<rparr>"

section \<open>Format detection: facts\<close>

lemma struct_unpack_i_short:
  "length bs \<noteq> 4 \<Longrightarrow> struct_unpack_i e bs = Inl StructError"
  by (cases "(e, bs)" rule: struct_unpack_i.cases) auto

lemma struct_unpack_i_four:
  "length bs = 4 \<Longrightarrow> \<exists>n. struct_unpack_i e bs = Inr n"
  by (cases "(e, bs)" rule: struct_unpack_i.cases) auto

text \<open>
  C2. \<^verbatim>\<open>isSAC\<close> never raises. It answers true exactly when the file can be opened and
  the four bytes at offset 316, read as a signed 32-bit integer in little-endian or in
  big-endian order, give an \<open>npts\<close> with \<open>632 + 4 * npts\<close> the size of the file. A
  file that cannot be opened and a file shorter than 320 bytes give false.
\<close>

theorem isSAC_size_check:
  "isSAC fs p =
     Inr (\<exists>content npts. fs p = Some content \<and>
           (struct_unpack_i Little (take 4 (drop 316 content)) = Inr npts
            \<or> struct_unpack_i Big (take 4 (drop 316 content)) = Inr npts) \<and>
           int (length content) = 632 + 4 * npts)
   \<and> (fs p = None \<longrightarrow> isSAC fs p = Inr False)
   \<and> (\<forall>content. fs p = Some content \<and> length content < 320 \<longrightarrow> isSAC fs p = Inr False)"
proof (cases "fs p")
  case None
  then show ?thesis by (simp add: isSAC_def)
next
  case (Some content)
  show ?thesis
  proof (cases "320 \<le> length content")
    case False
    then have "length (take 4 (drop 316 content)) \<noteq> 4" by auto
    then have "\<And>e. struct_unpack_i e (take 4 (drop 316 content)) = Inl StructError"
      by (rule struct_unpack_i_short)
    with Some False show ?thesis by (simp add: isSAC_def)
  next
    case True
    then have len: "length (take 4 (drop 316 content)) = 4" by auto
    obtain l where l: "struct_unpack_i Little (take 4 (drop 316 content)) = Inr l"
      using struct_unpack_i_four [OF len] by blast
    obtain b where b: "struct_unpack_i Big (take 4 (drop 316 content)) = Inr b"
      using struct_unpack_i_four [OF len] by blast
    from Some True l b show ?thesis
      by (auto simp add: isSAC_def Let_def)
  qed
qed

theorem isSAC_size_check_witness:
  "isSAC [''a.sac'' \<mapsto> replicate 316 0 @ [178, 255, 255, 255]] ''a.sac'' = Inr True
   \<and> isSAC [''a.sac'' \<mapsto> replicate 316 0 @ [178, 255, 255, 255]] ''b.sac'' = Inr False
   \<and> isSAC [''a.sac'' \<mapsto> [1, 2, 3]] ''a.sac'' = Inr False"
proof -
  let ?c = "replicate 316 0 @ [178, 255, 255, 255] :: byte list"
  have u: "struct_unpack_i Little (take 4 (drop 316 ?c)) = Inr (- 78)"
    by (simp add: signed32_def)
  have "\<exists>content npts. [''a.sac'' \<mapsto> ?c] ''a.sac'' = Some content \<and>
           (struct_unpack_i Little (take 4 (drop 316 content)) = Inr npts
            \<or> struct_unpack_i Big (take 4 (drop 316 content)) = Inr npts) \<and>
           int (length content) = 632 + 4 * npts"
    using u by (intro exI [of _ ?c] exI [of _ "- 78"]) simp
  then have a: "isSAC [''a.sac'' \<mapsto> ?c] ''a.sac'' = Inr True"
    using isSAC_size_check [of "[''a.sac'' \<mapsto> ?c]" "''a.sac''"] by simp
  have b: "isSAC [''a.sac'' \<mapsto> ?c] ''b.sac'' = Inr False"
    using isSAC_size_check [of "[''a.sac'' \<mapsto> ?c]" "''b.sac''"] by simp
  have c: "isSAC [''a.sac'' \<mapsto> [1, 2, 3]] ''a.sac'' = Inr False"
    using isSAC_size_check [of "[''a.sac'' \<mapsto> [1, 2, 3]]" "''a.sac''"] by simp
  from a b c show ?thesis by simp
qed

section \<open>Strings and numbers: facts\<close>

lemma digit_char_props:
  "d < 10 \<Longrightarrow> is_digit (digit_char d) \<and> (of_char (digit_char d) :: nat) - 48 = d"
  by (simp add: digit_char_def is_digit_def)

lemma digits_acc_append:
  "digits_acc a (xs @ ys) = (case digits_acc a xs of None \<Rightarrow> None | Some a' \<Rightarrow> digits_acc a' ys)"
  by (induction xs arbitrary: a) auto

lemma digits_acc_decimal: "digits_acc 0 (decimal n) = Some n"
proof (induction n rule: decimal.induct)
  case (1 n)
  show ?case
  proof (cases "n < 10")
    case True
    then show ?thesis using digit_char_props [of n] by (subst decimal.simps) simp
  next
    case False
    have d: "n mod 10 < 10" by simp
    from False 1 have ih: "digits_acc 0 (decimal (n div 10)) = Some (n div 10)" by simp
    have "decimal n = decimal (n div 10) @ [digit_char (n mod 10)]"
      using False by (subst decimal.simps) simp
    then show ?thesis
      using ih digit_char_props [OF d] by (simp add: digits_acc_append)
  qed
qed

lemma is_digit_zero: "is_digit (CHR ''0'')" "(of_char (CHR ''0'') :: nat) = 48"
  by (simp_all add: is_digit_def)

lemma digits_acc_zeros: "digits_acc 0 (replicate k (CHR ''0'') @ s) = digits_acc 0 s"
  by (induction k) (simp_all add: is_digit_zero)

lemma digits_acc_zero_pad: "digits_acc 0 (zero_pad w n) = Some n"
  by (simp add: zero_pad_def digits_acc_zeros digits_acc_decimal)

lemma decimal_digits: "c \<in> set (decimal n) \<Longrightarrow> is_digit c"
proof (induction n rule: decimal.induct)
  case (1 n)
  show ?case
  proof (cases "n < 10")
    case True
    then have "decimal n = [digit_char n]" by (subst decimal.simps) simp
    with True 1(2) show ?thesis using digit_char_props [of n] by simp
  next
    case False
    have d: "n mod 10 < 10" by simp
    have "decimal n = decimal (n div 10) @ [digit_char (n mod 10)]"
      using False by (subst decimal.simps) simp
    with 1 False show ?thesis using digit_char_props [OF d] by auto
  qed
qed

lemma decimal_nonempty: "decimal n \<noteq> []"
  by (subst decimal.simps) simp

lemma zero_pad_digits: "c \<in> set (zero_pad w n) \<Longrightarrow> is_digit c"
  by (auto simp add: zero_pad_def is_digit_zero dest: decimal_digits)

lemma zero_pad_nonempty: "zero_pad w n \<noteq> []"
  by (simp add: zero_pad_def decimal_nonempty)

lemma is_digit_not_space: "is_digit c \<Longrightarrow> \<not> is_space c"
  by (simp add: is_digit_def is_space_def)

lemma dropWhile_none: "(\<forall>c \<in> set xs. \<not> P c) \<Longrightarrow> dropWhile P xs = xs"
  by (cases xs) auto

lemma py_strip_no_space: "(\<forall>c \<in> set s. \<not> is_space c) \<Longrightarrow> py_strip s = s"
  by (simp add: py_strip_def dropWhile_none)

lemma is_digit_not_sign: "is_digit c \<Longrightarrow> c \<noteq> CHR ''-'' \<and> c \<noteq> CHR ''+''"
  by (auto simp add: is_digit_def)

lemma int_of_string_zero_pad: "int_of_string (zero_pad w n) = Some (int n)"
proof -
  have s: "py_strip (zero_pad w n) = zero_pad w n"
    by (rule py_strip_no_space) (auto dest: zero_pad_digits is_digit_not_space)
  obtain c cs where cc: "zero_pad w n = c # cs"
    using zero_pad_nonempty [of w n] by (cases "zero_pad w n") auto
  then have "is_digit c" using zero_pad_digits [of c w n] by simp
  then have ns: "c \<noteq> CHR ''-''" "c \<noteq> CHR ''+''" using is_digit_not_sign by auto
  have "digits_acc 0 (c # cs) = Some n" using digits_acc_zero_pad [of w n] cc by simp
  then show ?thesis
    using s cc ns by (simp add: int_of_string_def)
qed

section \<open>Timestamps: facts\<close>

lemma div_step:
  fixes y k :: int
  assumes "0 < k"
  shows "y div k - (y - 1) div k = (if y mod k = 0 then 1 else 0)"
proof (cases "y mod k = 0")
  case True
  have "y - 1 = k * (y div k - 1) + (k - 1)"
    using True mult_div_mod_eq [of k y] by (simp add: algebra_simps)
  then have "(y - 1) div k = y div k - 1"
    using assms int_div_pos_eq [of "y - 1" k "y div k - 1" "k - 1"] by simp
  with True show ?thesis by simp
next
  case False
  have r: "0 \<le> y mod k" "y mod k < k" using assms by simp_all
  have "y - 1 = k * (y div k) + (y mod k - 1)"
    using mult_div_mod_eq [of k y] by simp
  then have "(y - 1) div k = y div k"
    using r False int_div_pos_eq [of "y - 1" k "y div k" "y mod k - 1"] by simp
  with False show ?thesis by simp
qed

lemma mod_dvd_zero: "(a::int) mod m = 0 \<Longrightarrow> n dvd m \<Longrightarrow> a mod n = 0"
proof -
  assume "a mod m = 0" and nm: "n dvd m"
  then have "m dvd a" by (simp add: mod_eq_0_iff_dvd)
  with nm have "n dvd a" by (rule dvd_trans)
  then show ?thesis by (simp add: mod_eq_0_iff_dvd)
qed

lemma leap_count_step:
  "(y::int) div 4 - y div 100 + y div 400 - ((y - 1) div 4 - (y - 1) div 100 + (y - 1) div 400)
     = days_in_year y - 365"
proof -
  define a :: int where "a = (if y mod 4 = 0 then 1 else 0)"
  define b :: int where "b = (if y mod 100 = 0 then 1 else 0)"
  define c :: int where "c = (if y mod 400 = 0 then 1 else 0)"
  have a: "y div 4 - (y - 1) div 4 = a"
    unfolding a_def by (rule div_step) simp
  have b: "y div 100 - (y - 1) div 100 = b"
    unfolding b_def by (rule div_step) simp
  have c: "y div 400 - (y - 1) div 400 = c"
    unfolding c_def by (rule div_step) simp
  have d: "y mod 400 = 0 \<Longrightarrow> y mod 100 = 0" by (rule mod_dvd_zero [of y 400 100]) simp_all
  have e: "y mod 100 = 0 \<Longrightarrow> y mod 4 = 0" by (rule mod_dvd_zero [of y 100 4]) simp_all
  have "days_in_year y - 365 = a - b + c"
    using d e by (auto simp add: days_in_year_def is_leap_def a_def b_def c_def)
  then show ?thesis using a b c by linarith
qed

lemma days_before_year_step: "days_before_year (y + 1) = days_before_year y + days_in_year y"
proof -
  have "days_before_year (y + 1) - days_before_year y =
      365 + (y div 4 - y div 100 + y div 400 - ((y - 1) div 4 - (y - 1) div 100 + (y - 1) div 400))"
    by (simp add: days_before_year_def)
  then show ?thesis using leap_count_step [of y] by linarith
qed

lemma year_from_inv:
  "year_from y d = (y', d') \<Longrightarrow>
     days_before_year y' + d' = days_before_year y + d \<and> 0 \<le> d' \<and> d' < days_in_year y'"
proof (induction y d rule: year_from.induct)
  case (1 y d)
  show ?case
  proof (cases "d < 0")
    case True
    with 1(3) have "year_from (y - 1) (d + days_in_year (y - 1)) = (y', d')"
      by (subst (asm) year_from.simps) simp
    from 1(1) [OF True this] show ?thesis
      using days_before_year_step [of "y - 1"] by simp
  next
    case False
    show ?thesis
    proof (cases "days_in_year y \<le> d")
      case True
      with False 1(3) have "year_from (y + 1) (d - days_in_year y) = (y', d')"
        by (subst (asm) year_from.simps) simp
      from 1(2) [OF False True this] show ?thesis
        using days_before_year_step [of y] by simp
    next
      case nb: False
      with False 1(3) have "y' = y \<and> d' = d"
        by (subst (asm) year_from.simps) simp
      with False nb show ?thesis by simp
    qed
  qed
qed

lemma utc_days: "days_before_year (utc_year t) + (utc_julday t - 1) = t div 86400000000"
  and utc_julday_pos: "1 \<le> utc_julday t"
  using year_from_inv [of 1970 "t div 86400000000" "utc_year t" "utc_julday t - 1"]
  by (simp_all add: utc_year_def utc_julday_def days_before_year_def)

lemma split_mod:
  fixes t a b :: int
  assumes "b dvd a"
  shows "t mod a = (t mod a) div b * b + t mod b"
proof -
  have "t mod a mod b = t mod b" using assms by (rule mod_mod_cancel)
  then show ?thesis using div_mult_mod_eq [of "t mod a" b] by simp
qed

lemma assemble_fields:
  fixes t :: int
  assumes "t = d * 86400000000 + r1" "r1 = h * 3600000000 + r2" "r2 = m * 60000000 + r3"
    "r3 = s * 1000000 + u" "u = ms * 1000 + r5" "t = q * 1000 + r5"
  shows "((d * 24 + h) * 60 + m) * 60000000 + s * 1000000 + ms * 1000 = q * 1000"
  using assms by simp

lemma utc_fields_roundtrip:
  "utc_of_fields (utc_year t) (utc_julday t) (utc_hour t) (utc_minute t) (utc_second t)
     (utc_microsecond t div 1000 * 1000) = t div 1000 * 1000"
proof -
  have e0: "t = t div 86400000000 * 86400000000 + t mod 86400000000"
    by (simp only: div_mult_mod_eq)
  have e1: "t mod 86400000000 = utc_hour t * 3600000000 + t mod 3600000000"
    unfolding utc_hour_def by (rule split_mod) simp
  have e2: "t mod 3600000000 = utc_minute t * 60000000 + t mod 60000000"
    unfolding utc_minute_def by (rule split_mod) simp
  have e3: "t mod 60000000 = utc_second t * 1000000 + utc_microsecond t"
    unfolding utc_second_def utc_microsecond_def by (rule split_mod) simp
  have e4: "utc_microsecond t = utc_microsecond t div 1000 * 1000 + t mod 1000"
    unfolding utc_microsecond_def by (rule split_mod) simp
  have e5: "t = t div 1000 * 1000 + t mod 1000"
    by (simp only: div_mult_mod_eq)
  have d: "days_before_year (utc_year t) + (utc_julday t - 1) = t div 86400000000"
    by (rule utc_days)
  have "utc_of_fields (utc_year t) (utc_julday t) (utc_hour t) (utc_minute t) (utc_second t)
     (utc_microsecond t div 1000 * 1000) =
     (((t div 86400000000) * 24 + utc_hour t) * 60 + utc_minute t) * 60000000
       + utc_second t * 1000000 + utc_microsecond t div 1000 * 1000"
    unfolding utc_of_fields_def d ..
  also have "\<dots> = t div 1000 * 1000"
    using e0 e1 e2 e3 e4 e5 by (rule assemble_fields)
  finally show ?thesis .
qed

section \<open>The header object: facts\<close>

lemma kind_float: "n \<in> set ([''delta'', ''scale''] @ sac_extra_floats) \<Longrightarrow> kind n = Some Float32"
  by (simp add: kind_def)

lemma floats_ints_disjoint:
  "set ([''delta'', ''scale''] @ sac_extra_floats) \<inter> set ([''npts''] @ sac_extra_ints) = {}"
  by (simp add: sac_extra_floats_def sac_extra_ints_def)

lemma kind_int: "n \<in> set ([''npts''] @ sac_extra_ints) \<Longrightarrow> kind n = Some Int32"
  using floats_ints_disjoint by (auto simp add: kind_def)

lemma kind_sac_extra: "n \<in> set sac_extra \<Longrightarrow> kind n \<noteq> None"
  by (auto simp add: kind_def sac_extra_def)

lemma kind_nz [simp]:
  "kind ''npts'' = Some Int32" "kind ''iztype'' = Some Int32"
  "kind ''nzyear'' = Some Int32" "kind ''nzjday'' = Some Int32" "kind ''nzhour'' = Some Int32"
  "kind ''nzmin'' = Some Int32" "kind ''nzsec'' = Some Int32" "kind ''nzmsec'' = Some Int32"
  by (rule kind_int, simp add: sac_extra_ints_def)+

lemma kind_fl [simp]:
  "kind ''delta'' = Some Float32" "kind ''scale'' = Some Float32" "kind ''b'' = Some Float32"
  by (rule kind_float, simp add: sac_extra_floats_def)+

lemma kind_str [simp]:
  "kind ''kcmpnm'' = Some (FixedString 8)" "kind ''kstnm'' = Some (FixedString 8)"
  "kind ''knetwk'' = Some (FixedString 8)" "kind ''khole'' = Some (FixedString 8)"
  by (simp_all add: kind_def sac_extra_floats_def sac_extra_ints_def)

lemma sac_extra_mem [simp]:
  "''iztype'' \<in> set sac_extra" "''b'' \<in> set sac_extra" "''npts'' \<notin> set sac_extra"
  by (simp_all add: sac_extra_def sac_extra_floats_def sac_extra_ints_def sac_extra_strings_def)

lemma try_set_seis [simp]: "seis (try_set t n vo) = seis t"
  by (auto simp add: try_set_def SetHvalue_def split: option.splits sum.splits kind.splits hval.splits)

lemma try_set_hi:
  "hi (try_set t n vo) x =
     (if x = n \<and> kind n = Some Int32 then try_int vo (hi t x) else hi t x)"
  by (auto simp add: try_set_def try_int_def SetHvalue_def
      split: option.splits sum.splits kind.splits hval.splits)

lemma try_set_hf:
  "hf (try_set t n vo) x =
     (if x = n \<and> kind n = Some Float32 then try_float vo (hf t x) else hf t x)"
  by (auto simp add: try_set_def try_float_def SetHvalue_def
      split: option.splits sum.splits kind.splits hval.splits)

lemma try_int_idem [simp]: "try_int vo (try_int vo old) = try_int vo old"
  by (simp add: try_int_def split: option.splits sum.splits)

lemma try_float_idem [simp]: "try_float vo (try_float vo old) = try_float vo old"
  by (simp add: try_float_def split: option.splits sum.splits)

lemma overlay_extra_step:
  "overlay_extra trace (i # rest) t = overlay_extra trace rest (try_set t i (sac_lookup trace i))"
  by (simp add: try_set_def sac_lookup_def split: option.splits)

lemma overlay_common_step:
  "overlay_common trace ((j, k) # rest) t = overlay_common trace rest (try_set t j (stats trace k))"
  by (simp add: try_set_def)

lemma overlay_extra_seis [simp]: "seis (overlay_extra trace ns t) = seis t"
  by (induction ns arbitrary: t) (simp_all only: overlay_extra.simps(1) overlay_extra_step try_set_seis)

lemma overlay_common_seis [simp]: "seis (overlay_common trace l t) = seis t"
proof (induction l arbitrary: t)
  case Nil
  show ?case by simp
next
  case (Cons p l)
  obtain j k where p: "p = (j, k)" by (cases p)
  show ?case unfolding p overlay_common_step Cons try_set_seis ..
qed

lemma overlay_extra_hi:
  "hi (overlay_extra trace ns t) x =
     (if x \<in> set ns \<and> kind x = Some Int32 then try_int (sac_lookup trace x) (hi t x) else hi t x)"
proof (induction ns arbitrary: t)
  case Nil
  show ?case by simp
next
  case (Cons n ns)
  show ?case
    unfolding overlay_extra_step Cons by (auto simp add: try_set_hi)
qed

lemma overlay_extra_hf:
  "hf (overlay_extra trace ns t) x =
     (if x \<in> set ns \<and> kind x = Some Float32 then try_float (sac_lookup trace x) (hf t x) else hf t x)"
proof (induction ns arbitrary: t)
  case Nil
  show ?case by simp
next
  case (Cons n ns)
  show ?case
    unfolding overlay_extra_step Cons by (auto simp add: try_set_hf)
qed

lemma overlay_common_hi_other:
  "x \<notin> fst ` set l \<Longrightarrow> hi (overlay_common trace l t) x = hi t x"
proof (induction l arbitrary: t)
  case Nil
  show ?case by simp
next
  case (Cons p l)
  obtain j k where p: "p = (j, k)" by (cases p)
  from Cons.prems p have "x \<noteq> j" "x \<notin> fst ` set l" by auto
  then show ?case unfolding p overlay_common_step by (simp add: Cons.IH try_set_hi)
qed

lemma overlay_common_hf_other:
  "x \<notin> fst ` set l \<Longrightarrow> hf (overlay_common trace l t) x = hf t x"
proof (induction l arbitrary: t)
  case Nil
  show ?case by simp
next
  case (Cons p l)
  obtain j k where p: "p = (j, k)" by (cases p)
  from Cons.prems p have "x \<noteq> j" "x \<notin> fst ` set l" by auto
  then show ?case unfolding p overlay_common_step by (simp add: Cons.IH try_set_hf)
qed

lemma overlay_common_npts:
  "hi (overlay_common trace convert_dict t) ''npts'' = try_int (stats trace ''npts'') (hi t ''npts'')"
proof -
  have c: "convert_dict = (''npts'', ''npts'') # tl convert_dict"
    by (simp add: convert_dict_def)
  have n: "''npts'' \<notin> fst ` set (tl convert_dict)"
    by (simp add: convert_dict_def)
  show ?thesis
    by (subst c) (simp only: overlay_common_step overlay_common_hi_other [OF n] try_set_hi kind_nz if_True simp_thms)
qed

lemma convert_dict_not_extra:
  "x \<in> set sac_extra \<Longrightarrow> x \<notin> fst ` set convert_dict"
  by (auto simp add: convert_dict_def sac_extra_def sac_extra_floats_def sac_extra_ints_def sac_extra_strings_def)

lemma fromarray_ok:
  "py_float dv = Inr dr \<Longrightarrow>
   fromarray InitArrays xs (HFloat 0) dv =
     Inr \<lparr>hf = (\<lambda>_. - 12345)(''delta'' := dr, ''b'' := 0),
          hi = (\<lambda>_. - 12345)(''npts'' := int (length xs)),
          hs = (\<lambda>_. ''-12345  ''), seis = xs\<rparr>"
  by (simp add: fromarray_def SetHvalue_def InitArrays_def)

lemma fromarray_error:
  "py_float dv = Inl e \<Longrightarrow> fromarray InitArrays xs (HFloat 0) dv = Inl e"
  by (simp add: fromarray_def SetHvalue_def InitArrays_def)

lemma py_int_strftime_j: "py_int (HStr (strftime_j s)) = Inr (utc_julday s)"
  using utc_julday_pos [of s] by (simp add: strftime_j_def int_of_string_zero_pad)

lemma py_int_msec: "py_int (HFloat (of_int (utc_microsecond s) / 1000)) = Inr (utc_microsecond s div 1000)"
proof -
  have "0 \<le> utc_microsecond s" by (simp add: utc_microsecond_def)
  then have "(0::real) \<le> of_int (utc_microsecond s) / 1000" by simp
  moreover have "\<lfloor>(of_int (utc_microsecond s) :: real) / of_int 1000\<rfloor> = utc_microsecond s div 1000"
    by (rule floor_divide_of_int_eq)
  ultimately show ?thesis by simp
qed

lemma set_reference_time:
  "SetHvalues t
     [(''nzyear'', HInt (utc_year s)),
      (''nzjday'', HStr (strftime_j s)),
      (''nzhour'', HInt (utc_hour s)),
      (''nzmin'', HInt (utc_minute s)),
      (''nzsec'', HInt (utc_second s)),
      (''nzmsec'', HFloat (of_int (utc_microsecond s) / 1000))] =
   Inr (t\<lparr>hi := (hi t)(''nzyear'' := utc_year s, ''nzjday'' := utc_julday s,
          ''nzhour'' := utc_hour s, ''nzmin'' := utc_minute s, ''nzsec'' := utc_second s,
          ''nzmsec'' := utc_microsecond s div 1000)\<rparr>)"
  by (simp add: SetHvalue_def py_int_strftime_j py_int_msec del: py_int.simps(2,3))

section \<open>Writing: facts\<close>

lemma write_start_cases:
  "write_start trace =
     (case sac_lookup trace ''iztype'' of
        None \<Rightarrow> Inr (stats_starttime trace)
      | Some z \<Rightarrow>
          if py_eq_num z 11 then
            (case sac_lookup trace ''b'' of
               None \<Rightarrow> Inr (stats_starttime trace)
             | Some b \<Rightarrow>
                 (case py_float b of
                    Inl e \<Rightarrow> Inl e
                  | Inr r \<Rightarrow> Inr (utc_sub (stats_starttime trace) r)))
          else Inr (stats_starttime trace))"
  by (simp add: write_start_def sac_lookup_def Let_def split: option.splits)

lemma write_header_ok:
  assumes "stats trace ''delta'' = Some dv" and "py_float dv = Inr dr"
    and "write_start trace = Inr s"
  shows "\<exists>t. write_header trace = Inr t \<and> seis t = samples trace
     \<and> hi t ''npts'' = try_int (stats trace ''npts'') (int (length (samples trace)))
     \<and> hi t ''iztype'' = try_int (sac_lookup trace ''iztype'') (- 12345)
     \<and> hf t ''b'' = try_float (sac_lookup trace ''b'') 0
     \<and> hi t ''nzyear'' = utc_year s \<and> hi t ''nzjday'' = utc_julday s
     \<and> hi t ''nzhour'' = utc_hour s \<and> hi t ''nzmin'' = utc_minute s
     \<and> hi t ''nzsec'' = utc_second s \<and> hi t ''nzmsec'' = utc_microsecond s div 1000
     \<and> starttime t = s div 1000 * 1000"
proof -
  define t0 where "t0 = \<lparr>hf = (\<lambda>_. - 12345)(''delta'' := dr, ''b'' := 0),
          hi = (\<lambda>_. - 12345)(''npts'' := int (length (samples trace))),
          hs = (\<lambda>_. ''-12345  ''), seis = samples trace\<rparr>"
  define t2 where "t2 = overlay_extra trace sac_extra (overlay_common trace convert_dict t0)"
  define t where "t = t2\<lparr>hi := (hi t2)(''nzyear'' := utc_year s, ''nzjday'' := utc_julday s,
          ''nzhour'' := utc_hour s, ''nzmin'' := utc_minute s, ''nzsec'' := utc_second s,
          ''nzmsec'' := utc_microsecond s div 1000)\<rparr>"
  have f: "fromarray InitArrays (samples trace) (HFloat 0) dv = Inr t0"
    unfolding t0_def using assms(2) by (rule fromarray_ok)
  have w: "write_header trace = Inr t"
    unfolding write_header_def samples_def [symmetric] assms(1) option.case f sum.case Let_def
      t2_def [symmetric] assms(3) set_reference_time t_def ..
  have s2: "seis t2 = samples trace" by (simp add: t2_def t0_def)
  have n2: "hi t2 ''npts'' = try_int (stats trace ''npts'') (int (length (samples trace)))"
    by (simp add: t2_def overlay_extra_hi overlay_common_npts t0_def)
  have ni: "''iztype'' \<notin> fst ` set convert_dict" "''b'' \<notin> fst ` set convert_dict"
    by (rule convert_dict_not_extra, simp)+
  have i2: "hi t2 ''iztype'' = try_int (sac_lookup trace ''iztype'') (- 12345)"
    by (simp add: t2_def overlay_extra_hi overlay_common_hi_other [OF ni(1)] t0_def)
  have b2: "hf t2 ''b'' = try_float (sac_lookup trace ''b'') 0"
    by (simp add: t2_def overlay_extra_hf overlay_common_hf_other [OF ni(2)] t0_def)
  have st: "starttime t = s div 1000 * 1000"
    by (simp add: starttime_def t_def utc_fields_roundtrip)
  show ?thesis
    using w s2 n2 i2 b2 st by (intro exI [of _ t]) (simp add: t_def)
qed

lemma writable_iff: "writable trace \<longleftrightarrow> (\<exists>t. write_header trace = Inr t)"
proof
  assume "writable trace"
  then obtain dv dr s where "stats trace ''delta'' = Some dv" "py_float dv = Inr dr"
    "write_start trace = Inr s"
    by (auto simp add: writable_def split: option.splits sum.splits)
  from write_header_ok [OF this] show "\<exists>t. write_header trace = Inr t" by blast
next
  assume "\<exists>t. write_header trace = Inr t"
  then obtain t where t: "write_header trace = Inr t" ..
  show "writable trace"
  proof (rule ccontr)
    assume "\<not> writable trace"
    then consider "stats trace ''delta'' = None"
      | dv e where "stats trace ''delta'' = Some dv" "py_float dv = Inl e"
      | e where "write_start trace = Inl e"
      by (auto simp add: writable_def split: option.splits sum.splits)
    then show False
    proof cases
      case 1
      with t show False by (simp add: write_header_def)
    next
      case 2
      with t show False
        by (simp add: write_header_def samples_def [symmetric] fromarray_error)
    next
      case 3
      show False
      proof (cases "stats trace ''delta''")
        case None
        with t show False by (simp add: write_header_def)
      next
        case (Some dv)
        show False
        proof (cases "py_float dv")
          case (Inl e')
          with t Some show False
            by (simp add: write_header_def samples_def [symmetric] fromarray_error)
        next
          case (Inr dr)
          with t Some 3 show False
            by (simp add: write_header_def samples_def [symmetric] fromarray_ok Let_def)
        qed
      qed
    qed
  qed
qed

lemma write_traces_ok:
  "\<forall>tr \<in> set stream. writable tr \<Longrightarrow>
   write_traces base ext stream i filename d =
     (rev (map (\<lambda>(k, tr). (sac_path filename base ext k, SacFile (projr (write_header tr))))
        (zip [i..<i + length stream] stream)) @ d, None)"
proof (induction stream arbitrary: i filename d)
  case Nil
  show ?case by simp
next
  case (Cons tr stream)
  from Cons.prems obtain t where t: "write_header tr = Inr t"
    by (auto simp add: writable_iff)
  from Cons.prems have rest: "\<forall>tr \<in> set stream. writable tr" by simp
  let ?f = "sac_path filename base ext i"
  have z: "zip [i..<i + length (tr # stream)] (tr # stream) =
             (i, tr) # zip [Suc i..<Suc i + length stream] stream"
  proof -
    have "[i..<i + length (tr # stream)] = i # [Suc i..<Suc i + length stream]"
      by (subst upt_rec) simp
    then show ?thesis by simp
  qed
  have m: "map (\<lambda>(k, tr). (sac_path ?f base ext k, SacFile (projr (write_header tr))))
             (zip [Suc i..<Suc i + length stream] stream) =
           map (\<lambda>(k, tr). (sac_path filename base ext k, SacFile (projr (write_header tr))))
             (zip [Suc i..<Suc i + length stream] stream)"
  proof (rule map_cong [OF refl])
    fix x
    assume x: "x \<in> set (zip [Suc i..<Suc i + length stream] stream)"
    obtain k y where xy: "x = (k, y)" by (cases x)
    from x xy have "k \<in> set [Suc i..<Suc i + length stream]" by (auto dest: set_zip_leftD)
    then have "k \<noteq> 0" by (simp del: upt_Suc)
    then show "(case x of (k, tr) \<Rightarrow>
          (sac_path (sac_path filename base ext i) base ext k, SacFile (projr (write_header tr)))) =
        (case x of (k, tr) \<Rightarrow> (sac_path filename base ext k, SacFile (projr (write_header tr))))"
      by (simp add: xy sac_path_def)
  qed
  have "write_traces base ext (tr # stream) i filename d =
          write_traces base ext stream (Suc i) ?f (WriteSacBinary t ?f d)"
    using t by (simp add: sac_path_def Let_def)
  also have "\<dots> =
      (rev (map (\<lambda>(k, tr). (sac_path ?f base ext k, SacFile (projr (write_header tr))))
        (zip [Suc i..<Suc i + length stream] stream)) @ WriteSacBinary t ?f d, None)"
    by (rule Cons.IH [OF rest])
  finally show ?case
    unfolding z m using t by (simp add: WriteSacBinary_def)
qed

lemma map_fst_zip_pairs:
  "length xs = length ys \<Longrightarrow> map fst (map (\<lambda>(k, y). (f k, h y)) (zip xs ys)) = map f xs"
  by (induction xs ys rule: list_induct2) simp_all

lemma write_traces_paths:
  "\<forall>tr \<in> set stream. writable tr \<Longrightarrow>
   map fst (fst (write_traces base ext stream i filename d)) =
     rev (map (sac_path filename base ext) [i..<i + length stream]) @ map fst d"
proof -
  assume a: "\<forall>tr \<in> set stream. writable tr"
  have "map fst (map (\<lambda>(k, tr). (sac_path filename base ext k, SacFile (projr (write_header tr))))
        (zip [i..<i + length stream] stream)) =
      map (sac_path filename base ext) [i..<i + length stream]"
    by (rule map_fst_zip_pairs) simp
  then show ?thesis
    by (simp add: write_traces_ok [OF a] rev_map [symmetric])
qed

lemma splitext_concat: "fst (splitext p) @ snd (splitext p) = p"
  by (simp add: splitext_def Let_def)

lemma decimal_length: "length (decimal n) = (if n < 10 then 1 else Suc (length (decimal (n div 10))))"
  by (subst decimal.simps) simp

lemma zero_pad_two_digits:
  "i < 100 \<Longrightarrow> zero_pad 2 i = [digit_char (i div 10), digit_char (i mod 10)]"
proof (cases "i < 10")
  case True
  then have "decimal i = [digit_char i]" by (subst decimal.simps) simp
  moreover have "digit_char 0 = CHR ''0''" by code_simp
  ultimately show ?thesis using True by (simp add: zero_pad_def)
next
  case False
  assume "i < 100"
  then have "i div 10 < 10" by simp
  then have "decimal (i div 10) = [digit_char (i div 10)]" by (subst decimal.simps) simp
  with False have "decimal i = [digit_char (i div 10), digit_char (i mod 10)]"
    by (subst decimal.simps) simp
  then show ?thesis by (simp add: zero_pad_def)
qed

lemma zero_pad_long: "100 \<le> i \<Longrightarrow> zero_pad 2 i = decimal i \<and> 3 \<le> length (decimal i)"
proof -
  assume a: "100 \<le> i"
  then have b: "\<not> i div 10 < 10" by simp
  have "length (decimal i) = Suc (length (decimal (i div 10)))"
    using a by (subst decimal_length) simp
  also have "\<dots> = Suc (Suc (length (decimal (i div 10 div 10))))"
    using b by (subst decimal_length) simp
  also have "\<dots> \<ge> 3" using decimal_nonempty [of "i div 10 div 10"]
    by (cases "decimal (i div 10 div 10)") simp_all
  finally show ?thesis by (simp add: zero_pad_def)
qed

section \<open>Reading: facts\<close>

lemma convert_header_convert_dict:
  "convert_header t convert_dict Map.empty =
     Inr [''npts'' \<mapsto> HInt (hi t ''npts''),
      ''delta'' \<mapsto> HFloat (hf t ''delta''),
      ''channel'' \<mapsto> HStr (strip_sentinel (hs t ''kcmpnm'')),
      ''station'' \<mapsto> HStr (strip_sentinel (hs t ''kstnm'')),
      ''calib'' \<mapsto> HFloat (hf t ''scale''),
      ''network'' \<mapsto> HStr (strip_sentinel (hs t ''knetwk'')),
      ''location'' \<mapsto> HStr (strip_sentinel (hs t ''khole''))]"
  by (simp add: convert_dict_def GetHvalue_def strip_sentinel_def Let_def)

lemma extra_header_ok:
  "\<forall>n \<in> set ns. kind n \<noteq> None \<Longrightarrow>
   extra_header t ns m =
     Inr (\<lambda>n. if n \<in> set ns then (case GetHvalue t n of Inl _ \<Rightarrow> None | Inr v \<Rightarrow> Some v)
               else m n)"
proof (induction ns arbitrary: m)
  case Nil
  show ?case by simp
next
  case (Cons i ns)
  from Cons.prems obtain y where "kind i = Some y" by auto
  then have "\<exists>v. GetHvalue t i = Inr v"
    by (cases y) (simp_all add: GetHvalue_def)
  then obtain v where v: "GetHvalue t i = Inr v" ..
  from Cons.prems have "\<forall>n \<in> set ns. kind n \<noteq> None" by simp
  from Cons.IH [OF this] v show ?case by (auto simp add: fun_eq_iff)
qed

lemma extra_header_sac_extra: "extra_header t sac_extra Map.empty = Inr (extra_stats t)"
  unfolding extra_stats_def by (rule extra_header_ok) (simp add: kind_sac_extra)

lemma extra_stats_iztype [simp]: "extra_stats t ''iztype'' = Some (HInt (hi t ''iztype''))"
  by (simp add: extra_stats_def GetHvalue_def)

lemma extra_stats_b [simp]: "extra_stats t ''b'' = Some (HFloat (hf t ''b''))"
  by (simp add: extra_stats_def GetHvalue_def)

lemma readSAC_loaded:
  assumes "(if headonly then ReadSacHeader d f else ReadSacFile d f) = Inr t"
  shows "readSAC d f headonly =
     (if hi t ''iztype'' = 11
        then Inr [read_trace t headonly (utc_add (starttime t) (hf t ''b''))]
      else if hi t ''iztype'' = 9 \<or> hi t ''iztype'' = - 12345
        then Inr [read_trace t headonly (starttime t)]
      else Inl NotImplementedError)"
proof -
  have c: "(if py_eq_num (HFloat (hf t ''scale'')) (- 12345)
            then [''npts'' \<mapsto> HInt (hi t ''npts''),
      ''delta'' \<mapsto> HFloat (hf t ''delta''),
      ''channel'' \<mapsto> HStr (strip_sentinel (hs t ''kcmpnm'')),
      ''station'' \<mapsto> HStr (strip_sentinel (hs t ''kstnm'')),
      ''calib'' \<mapsto> HFloat (hf t ''scale''),
      ''network'' \<mapsto> HStr (strip_sentinel (hs t ''knetwk'')),
      ''location'' \<mapsto> HStr (strip_sentinel (hs t ''khole''))](''calib'' \<mapsto> HFloat 1)
            else [''npts'' \<mapsto> HInt (hi t ''npts''),
      ''delta'' \<mapsto> HFloat (hf t ''delta''),
      ''channel'' \<mapsto> HStr (strip_sentinel (hs t ''kcmpnm'')),
      ''station'' \<mapsto> HStr (strip_sentinel (hs t ''kstnm'')),
      ''calib'' \<mapsto> HFloat (hf t ''scale''),
      ''network'' \<mapsto> HStr (strip_sentinel (hs t ''knetwk'')),
      ''location'' \<mapsto> HStr (strip_sentinel (hs t ''khole''))]) = common_stats t"
    by (auto simp add: common_stats_def fun_eq_iff)
  have k: "[''npts'' \<mapsto> HInt (hi t ''npts''),
      ''delta'' \<mapsto> HFloat (hf t ''delta''),
      ''channel'' \<mapsto> HStr (strip_sentinel (hs t ''kcmpnm'')),
      ''station'' \<mapsto> HStr (strip_sentinel (hs t ''kstnm'')),
      ''calib'' \<mapsto> HFloat (hf t ''scale''),
      ''network'' \<mapsto> HStr (strip_sentinel (hs t ''knetwk'')),
      ''location'' \<mapsto> HStr (strip_sentinel (hs t ''khole''))] ''calib'' = Some (HFloat (hf t ''scale''))"
    by simp
  show ?thesis
    unfolding readSAC_def assms sum.case convert_header_convert_dict k option.case Let_def c
      extra_header_sac_extra extra_stats_iztype extra_stats_b
    by (simp add: read_trace_def)
qed

lemma ReadSacHeader_eq:
  "ReadSacHeader d f = (case ReadSacFile d f of Inl e \<Rightarrow> Inl e | Inr t \<Rightarrow> Inr (t\<lparr>seis := []\<rparr>))"
  by (simp add: ReadSacHeader_def ReadSacFile_def split: option.splits fnode.splits)

section \<open>Properties of reading and writing\<close>

lemma example_header_loads:
  "ReadSacFile [(''a.sac'', SacFile (example_header z))] ''a.sac'' = Inr (example_header z)"
  by (simp add: ReadSacFile_def example_header_def)

lemma example_header_starttime: "starttime (example_header z) = 1239366615123000"
  by (simp add: starttime_def example_header_def utc_of_fields_def days_before_year_def)

text \<open>
  C3. For every readable SAC file, a full read resolves the start time of the trace by
  the three-way rule on the \<^verbatim>\<open>iztype\<close> of the header: with \<open>11\<close> the float \<open>b\<close>
  (seconds) is added to the base reference time, which is assembled from \<^verbatim>\<open>nzyear\<close>,
  \<^verbatim>\<open>nzjday\<close>, \<^verbatim>\<open>nzhour\<close>, \<^verbatim>\<open>nzmin\<close>, \<^verbatim>\<open>nzsec\<close> and \<^verbatim>\<open>nzmsec\<close>; with \<open>9\<close>
  or the sentinel \<open>-12345\<close> the base reference time is the start time; with any other
  value the read fails with \<^verbatim>\<open>NotImplementedError\<close> (the spec's
  \<^verbatim>\<open>UnsupportedTimeReferenceError\<close>) and returns no trace.
\<close>

theorem readSAC_starttime_rule:
  assumes "ReadSacFile d f = Inr t"
  shows "starttime t =
      utc_of_fields (hi t ''nzyear'') (hi t ''nzjday'') (hi t ''nzhour'') (hi t ''nzmin'')
        (hi t ''nzsec'') (hi t ''nzmsec'' * 1000)
    \<and> (hi t ''iztype'' = 11 \<longrightarrow>
         (\<exists>tr. readSAC d f False = Inr [tr]
            \<and> stats_starttime tr = utc_add (starttime t) (hf t ''b'')))
    \<and> (hi t ''iztype'' = 9 \<or> hi t ''iztype'' = - 12345 \<longrightarrow>
         (\<exists>tr. readSAC d f False = Inr [tr] \<and> stats_starttime tr = starttime t))
    \<and> (hi t ''iztype'' \<noteq> 11 \<and> hi t ''iztype'' \<noteq> 9 \<and> hi t ''iztype'' \<noteq> - 12345 \<longrightarrow>
         readSAC d f False = Inl NotImplementedError)"
proof -
  from assms have l: "(if False then ReadSacHeader d f else ReadSacFile d f) = Inr t" by simp
  show ?thesis
    unfolding readSAC_loaded [OF l] by (simp add: starttime_def read_trace_def)
qed

theorem readSAC_starttime_rule_witness:
  "(\<exists>tr. readSAC [(''a.sac'', SacFile (example_header 11))] ''a.sac'' False = Inr [tr]
      \<and> stats_starttime tr = 1239366616623000)
   \<and> (\<exists>tr. readSAC [(''a.sac'', SacFile (example_header 9))] ''a.sac'' False = Inr [tr]
      \<and> stats_starttime tr = 1239366615123000)
   \<and> (\<exists>tr. readSAC [(''a.sac'', SacFile (example_header (- 12345)))] ''a.sac'' False = Inr [tr]
      \<and> stats_starttime tr = 1239366615123000)
   \<and> readSAC [(''a.sac'', SacFile (example_header 3))] ''a.sac'' False = Inl NotImplementedError"
proof -
  have i: "\<And>z. hi (example_header z) ''iztype'' = z" by (simp add: example_header_def)
  have b: "\<And>z. hf (example_header z) ''b'' = 3 / 2" by (simp add: example_header_def)
  have a: "utc_add 1239366615123000 (3 / 2) = 1239366616623000"
    by (simp add: utc_add_def us_of_seconds_def)
  show ?thesis
    using readSAC_starttime_rule [OF example_header_loads [of 11]]
      readSAC_starttime_rule [OF example_header_loads [of 9]]
      readSAC_starttime_rule [OF example_header_loads [of "- 12345"]]
      readSAC_starttime_rule [OF example_header_loads [of 3]]
    by (simp add: i b a example_header_starttime)
qed

lemma GetHvalue_seis [simp]: "GetHvalue (t\<lparr>seis := xs\<rparr>) n = GetHvalue t n"
  by (simp add: GetHvalue_def split: option.splits kind.splits)

lemma extra_stats_seis [simp]: "extra_stats (t\<lparr>seis := xs\<rparr>) = extra_stats t"
  by (simp add: extra_stats_def cong: if_cong)

lemma read_trace_header_only:
  "read_trace (t\<lparr>seis := []\<rparr>) True s = (read_trace t False s)\<lparr>data := None\<rparr>"
  by (simp add: read_trace_def common_stats_def)

lemma starttime_seis [simp]: "starttime (t\<lparr>seis := xs\<rparr>) = starttime t"
  by (simp add: starttime_def)

lemma example_header_only:
  "ReadSacHeader [(''a.sac'', SacFile (example_header z))] ''a.sac'' = Inr ((example_header z)\<lparr>seis := []\<rparr>)"
  by (simp add: ReadSacHeader_def example_header_def)

text \<open>
  C10. A header-only read validates \<^verbatim>\<open>iztype\<close> as a full read does: it fails exactly
  when the full read fails, with the same error, and otherwise returns the trace of the
  full read without its samples. For a header with an \<^verbatim>\<open>iztype\<close> other than \<open>9\<close>,
  \<open>11\<close> and \<open>-12345\<close> it fails with \<^verbatim>\<open>NotImplementedError\<close>; with a supported
  \<^verbatim>\<open>iztype\<close> the start time follows the same rule and the trace has no samples.
\<close>

theorem readSAC_headonly_validates:
  "readSAC d f True =
     (case readSAC d f False of
        Inl e \<Rightarrow> Inl e
      | Inr trs \<Rightarrow> Inr (map (\<lambda>tr. tr\<lparr>data := None\<rparr>) trs))
   \<and> (\<forall>t. ReadSacHeader d f = Inr t
          \<and> hi t ''iztype'' \<noteq> 11 \<and> hi t ''iztype'' \<noteq> 9 \<and> hi t ''iztype'' \<noteq> - 12345 \<longrightarrow>
        readSAC d f True = Inl NotImplementedError)
   \<and> (\<forall>t. ReadSacHeader d f = Inr t
          \<and> (hi t ''iztype'' = 11 \<or> hi t ''iztype'' = 9 \<or> hi t ''iztype'' = - 12345) \<longrightarrow>
        (\<exists>tr. readSAC d f True = Inr [tr] \<and> data tr = None
           \<and> stats_starttime tr =
               (if hi t ''iztype'' = 11 then utc_add (starttime t) (hf t ''b'')
                else starttime t)))"
proof -
  have one: "readSAC d f True =
     (case readSAC d f False of
        Inl e \<Rightarrow> Inl e
      | Inr trs \<Rightarrow> Inr (map (\<lambda>tr. tr\<lparr>data := None\<rparr>) trs))"
  proof (cases "ReadSacFile d f")
    case (Inl e)
    then have "ReadSacHeader d f = Inl e" by (simp add: ReadSacHeader_eq)
    with Inl show ?thesis by (simp add: readSAC_def)
  next
    case (Inr t)
    then have h: "(if True then ReadSacHeader d f else ReadSacFile d f) = Inr (t\<lparr>seis := []\<rparr>)"
      by (simp add: ReadSacHeader_eq)
    from Inr have l: "(if False then ReadSacHeader d f else ReadSacFile d f) = Inr t" by simp
    show ?thesis
      unfolding readSAC_loaded [OF h] readSAC_loaded [OF l]
      by (simp add: read_trace_header_only)
  qed
  have two: "\<And>t. ReadSacHeader d f = Inr t \<Longrightarrow>
      readSAC d f True =
       (if hi t ''iztype'' = 11
        then Inr [read_trace t True (utc_add (starttime t) (hf t ''b''))]
      else if hi t ''iztype'' = 9 \<or> hi t ''iztype'' = - 12345
        then Inr [read_trace t True (starttime t)]
      else Inl NotImplementedError)"
    by (rule readSAC_loaded) simp
  show ?thesis
    using one two by (auto simp add: read_trace_def)
qed

theorem readSAC_headonly_validates_witness:
  "readSAC [(''a.sac'', SacFile (example_header 3))] ''a.sac'' True = Inl NotImplementedError
   \<and> (\<exists>tr. readSAC [(''a.sac'', SacFile (example_header 11))] ''a.sac'' True = Inr [tr]
         \<and> data tr = None \<and> stats_starttime tr = 1239366616623000)
   \<and> (\<exists>tr. readSAC [(''a.sac'', SacFile (example_header 9))] ''a.sac'' True = Inr [tr]
         \<and> data tr = None \<and> stats_starttime tr = 1239366615123000)"
proof -
  have i: "\<And>z. hi (example_header z) ''iztype'' = z" by (simp add: example_header_def)
  have b: "\<And>z. hf (example_header z) ''b'' = 3 / 2" by (simp add: example_header_def)
  have a: "utc_add 1239366615123000 (3 / 2) = 1239366616623000"
    by (simp add: utc_add_def us_of_seconds_def)
  note r = readSAC_headonly_validates [THEN conjunct2]
  have 1: "readSAC [(''a.sac'', SacFile (example_header 3))] ''a.sac'' True = Inl NotImplementedError"
    using r [THEN conjunct1, rule_format, of _ _ "(example_header 3)\<lparr>seis := []\<rparr>"]
      example_header_only [of 3] by (simp add: i)
  have 2: "\<exists>tr. readSAC [(''a.sac'', SacFile (example_header 11))] ''a.sac'' True = Inr [tr]
         \<and> data tr = None \<and> stats_starttime tr = 1239366616623000"
    using r [THEN conjunct2, rule_format, of _ _ "(example_header 11)\<lparr>seis := []\<rparr>"]
      example_header_only [of 11] by (simp add: i b a example_header_starttime)
  have 3: "\<exists>tr. readSAC [(''a.sac'', SacFile (example_header 9))] ''a.sac'' True = Inr [tr]
         \<and> data tr = None \<and> stats_starttime tr = 1239366615123000"
    using r [THEN conjunct2, rule_format, of _ _ "(example_header 9)\<lparr>seis := []\<rparr>"]
      example_header_only [of 9] by (simp add: i example_header_starttime)
  from 1 2 3 show ?thesis by simp
qed

lemma readSAC_trace:
  assumes "(if headonly then ReadSacHeader d f else ReadSacFile d f) = Inr t"
    and "readSAC d f headonly = Inr [tr]"
  shows "stats tr = common_stats t"
  using assms(2) unfolding readSAC_loaded [OF assms(1)]
  by (auto simp add: read_trace_def split: if_splits)

text \<open>
  C5. On read, a header whose \<^verbatim>\<open>scale\<close> field is exactly the float sentinel
  \<open>-12345.0\<close> gives the trace the calibration \<open>1.0\<close>, and a header with any other
  \<^verbatim>\<open>scale\<close> gives that value unchanged. (\<^verbatim>\<open>scale\<close> is a float field of the
  header: \<^verbatim>\<open>GetHvalue\<close> returns the float \<open>hf t ''scale''\<close> for it.)
\<close>

theorem readSAC_calib:
  assumes "(if headonly then ReadSacHeader d f else ReadSacFile d f) = Inr t"
    and "readSAC d f headonly = Inr [tr]"
  shows "GetHvalue t ''scale'' = Inr (HFloat (hf t ''scale''))
    \<and> (hf t ''scale'' = - 12345 \<longrightarrow> stats tr ''calib'' = Some (HFloat 1))
    \<and> (hf t ''scale'' \<noteq> - 12345 \<longrightarrow> stats tr ''calib'' = Some (HFloat (hf t ''scale'')))"
  unfolding readSAC_trace [OF assms]
  by (simp add: common_stats_def GetHvalue_def)

lemma example_header_read:
  "readSAC [(''a.sac'', SacFile (example_header 9))] ''a.sac'' False =
     Inr [read_trace (example_header 9) False 1239366615123000]"
proof -
  have l: "(if False then ReadSacHeader [(''a.sac'', SacFile (example_header 9))] ''a.sac''
            else ReadSacFile [(''a.sac'', SacFile (example_header 9))] ''a.sac'') =
           Inr (example_header 9)"
    by (simp add: example_header_loads)
  have i: "hi (example_header 9) ''iztype'' = 9" by (simp add: example_header_def)
  show ?thesis
    unfolding readSAC_loaded [OF l] by (simp add: i example_header_starttime)
qed

theorem readSAC_calib_witness:
  "readSAC [(''a.sac'', SacFile (example_header 9))] ''a.sac'' False =
     Inr [read_trace (example_header 9) False 1239366615123000]
   \<and> hf (example_header 9) ''scale'' = - 12345
   \<and> stats (read_trace (example_header 9) False 1239366615123000) ''calib'' = Some (HFloat 1)
   \<and> stats (read_trace ((example_header 9)\<lparr>hf := (hf (example_header 9))(''scale'' := 2)\<rparr>)
        False 1239366615123000) ''calib'' = Some (HFloat 2)"
proof -
  let ?d = "[(''a.sac'', SacFile (example_header 9))]"
  let ?t2 = "(example_header 9)\<lparr>hf := (hf (example_header 9))(''scale'' := 2)\<rparr>"
  let ?d2 = "[(''a.sac'', SacFile ?t2)]"
  have l: "(if False then ReadSacHeader ?d ''a.sac'' else ReadSacFile ?d ''a.sac'') =
           Inr (example_header 9)"
    by (simp add: example_header_loads)
  have s: "hf (example_header 9) ''scale'' = - 12345" by (simp add: example_header_def)
  have 1: "stats (read_trace (example_header 9) False 1239366615123000) ''calib'' = Some (HFloat 1)"
    using readSAC_calib [OF l example_header_read] s by simp
  have l2: "(if False then ReadSacHeader ?d2 ''a.sac'' else ReadSacFile ?d2 ''a.sac'') = Inr ?t2"
    by (simp add: ReadSacFile_def example_header_def)
  have i2: "hi (example_header 9) ''iztype'' = 9" by (simp add: example_header_def)
  have st: "starttime ?t2 = 1239366615123000"
    using example_header_starttime [of 9] by (simp add: starttime_def)
  have r2: "readSAC ?d2 ''a.sac'' False = Inr [read_trace ?t2 False 1239366615123000]"
    unfolding readSAC_loaded [OF l2] by (simp add: i2 st)
  have 2: "stats (read_trace ?t2 False 1239366615123000) ''calib'' = Some (HFloat 2)"
    using readSAC_calib [OF l2 r2] by simp
  from 1 2 s example_header_read show ?thesis by simp
qed

lemma py_strip_decompose:
  "\<exists>l r. s = l @ py_strip s @ r \<and> (\<forall>c \<in> set l. is_space c) \<and> (\<forall>c \<in> set r. is_space c)"
proof -
  let ?a = "dropWhile is_space s"
  have 1: "s = takeWhile is_space s @ ?a" by simp
  have "rev (takeWhile is_space (rev ?a) @ dropWhile is_space (rev ?a)) = rev (rev ?a)"
    by (simp only: takeWhile_dropWhile_id)
  then have "?a = rev (dropWhile is_space (rev ?a)) @ rev (takeWhile is_space (rev ?a))"
    by (simp only: rev_append rev_rev_ident)
  then have 3: "?a = py_strip s @ rev (takeWhile is_space (rev ?a))"
    by (simp add: py_strip_def)
  have "s = takeWhile is_space s @ py_strip s @ rev (takeWhile is_space (rev ?a))"
    using 1 3 by metis
  moreover have "\<forall>c \<in> set (takeWhile is_space s). is_space c"
    by (auto dest: set_takeWhileD)
  moreover have "\<forall>c \<in> set (rev (takeWhile is_space (rev ?a))). is_space c"
    by (auto dest: set_takeWhileD)
  ultimately show ?thesis by blast
qed

lemma py_strip_ends:
  "py_strip s \<noteq> [] \<Longrightarrow> \<not> is_space (hd (py_strip s)) \<and> \<not> is_space (last (py_strip s))"
proof -
  assume n: "py_strip s \<noteq> []"
  let ?a = "dropWhile is_space s"
  let ?b = "dropWhile is_space (rev ?a)"
  from n have b: "?b \<noteq> []" by (simp add: py_strip_def)
  then have hb: "\<not> is_space (hd ?b)" by (rule hd_dropWhile)
  have a: "?a \<noteq> []"
  proof
    assume e: "?a = []"
    have "?b = []" unfolding e by simp
    with b show False ..
  qed
  then have ha: "\<not> is_space (hd ?a)" by (rule hd_dropWhile)
  have l: "last (py_strip s) = hd ?b" using b by (simp add: py_strip_def last_rev)
  have "rev ?a \<noteq> []" using a by simp
  have "last ?b = last (rev ?a)"
    using b by (metis append_Nil2 last_appendR takeWhile_dropWhile_id)
  then have "hd (py_strip s) = hd ?a"
    using a b by (simp add: py_strip_def hd_rev last_rev)
  with ha hb l show ?thesis by simp
qed

lemma convert_dict_cases:
  "(i, j) \<in> set convert_dict \<Longrightarrow>
     (i = ''npts'' \<and> j = ''npts'') \<or> (i = ''delta'' \<and> j = ''delta'')
     \<or> (i = ''kcmpnm'' \<and> j = ''channel'') \<or> (i = ''kstnm'' \<and> j = ''station'')
     \<or> (i = ''scale'' \<and> j = ''calib'') \<or> (i = ''knetwk'' \<and> j = ''network'')
     \<or> (i = ''khole'' \<and> j = ''location'')"
  by (simp add: convert_dict_def)

lemma common_stats_string:
  assumes "(i, j) \<in> set convert_dict" and "GetHvalue t i = Inr (HStr s)"
  shows "common_stats t j = Some (HStr (strip_sentinel s))"
  using convert_dict_cases [OF assms(1)]
proof (elim disjE conjE)
  assume "i = ''npts''"
  with assms(2) show ?thesis by (simp add: GetHvalue_def)
next
  assume "i = ''delta''"
  with assms(2) show ?thesis by (simp add: GetHvalue_def)
next
  assume "i = ''scale''"
  with assms(2) show ?thesis by (simp add: GetHvalue_def)
next
  assume a: "i = ''kcmpnm''" "j = ''channel''"
  with assms(2) have "s = hs t ''kcmpnm''" by (simp add: GetHvalue_def)
  with a show ?thesis by (simp add: common_stats_def)
next
  assume a: "i = ''kstnm''" "j = ''station''"
  with assms(2) have "s = hs t ''kstnm''" by (simp add: GetHvalue_def)
  with a show ?thesis by (simp add: common_stats_def)
next
  assume a: "i = ''knetwk''" "j = ''network''"
  with assms(2) have "s = hs t ''knetwk''" by (simp add: GetHvalue_def)
  with a show ?thesis by (simp add: common_stats_def)
next
  assume a: "i = ''khole''" "j = ''location''"
  with assms(2) have "s = hs t ''khole''" by (simp add: GetHvalue_def)
  with a show ?thesis by (simp add: common_stats_def)
qed

text \<open>
  C6. On read, every common (renamed) field whose value in the header is a string is
  stripped of leading and trailing whitespace (the padding of the header is spaces),
  and the stripped sentinel \<^verbatim>\<open>-12345\<close> becomes the empty string in the metadata of
  the trace; any other string keeps its stripped value.
\<close>

theorem readSAC_strings:
  assumes "(if headonly then ReadSacHeader d f else ReadSacFile d f) = Inr t"
    and "readSAC d f headonly = Inr [tr]"
    and "(i, j) \<in> set convert_dict"
    and "GetHvalue t i = Inr (HStr s)"
  shows "stats tr j = Some (HStr (if py_strip s = ''-12345'' then [] else py_strip s))
    \<and> (\<exists>l r. s = l @ py_strip s @ r \<and> (\<forall>c \<in> set l. is_space c) \<and> (\<forall>c \<in> set r. is_space c))
    \<and> (py_strip s = [] \<or> (\<not> is_space (hd (py_strip s)) \<and> \<not> is_space (last (py_strip s))))"
proof -
  have "stats tr j = Some (HStr (strip_sentinel s))"
    unfolding readSAC_trace [OF assms(1,2)] using assms(3,4) by (rule common_stats_string)
  then have a: "stats tr j = Some (HStr (if py_strip s = ''-12345'' then [] else py_strip s))"
    by (simp only: strip_sentinel_def)
  have b: "py_strip s = [] \<or> (\<not> is_space (hd (py_strip s)) \<and> \<not> is_space (last (py_strip s)))"
    using py_strip_ends [of s] by blast
  from a py_strip_decompose [of s] b show ?thesis by (intro conjI)
qed

theorem readSAC_strings_witness:
  "readSAC [(''a.sac'', SacFile (example_header 9))] ''a.sac'' False =
     Inr [read_trace (example_header 9) False 1239366615123000]
   \<and> GetHvalue (example_header 9) ''kstnm'' = Inr (HStr ''ABC     '')
   \<and> GetHvalue (example_header 9) ''knetwk'' = Inr (HStr ''-12345  '')
   \<and> stats (read_trace (example_header 9) False 1239366615123000) ''station'' = Some (HStr ''ABC'')
   \<and> stats (read_trace (example_header 9) False 1239366615123000) ''network'' = Some (HStr [])"
proof -
  let ?d = "[(''a.sac'', SacFile (example_header 9))]"
  have l: "(if False then ReadSacHeader ?d ''a.sac'' else ReadSacFile ?d ''a.sac'') =
           Inr (example_header 9)"
    by (simp add: example_header_loads)
  have g1: "GetHvalue (example_header 9) ''kstnm'' = Inr (HStr ''ABC     '')"
    by (simp add: GetHvalue_def example_header_def)
  have g2: "GetHvalue (example_header 9) ''knetwk'' = Inr (HStr ''-12345  '')"
    by (simp add: GetHvalue_def example_header_def)
  have m1: "(''kstnm'', ''station'') \<in> set convert_dict" by (simp add: convert_dict_def)
  have m2: "(''knetwk'', ''network'') \<in> set convert_dict" by (simp add: convert_dict_def)
  have s1: "py_strip ''ABC     '' = ''ABC''" by code_simp
  have s2: "py_strip ''-12345  '' = ''-12345''" by code_simp
  have 1: "stats (read_trace (example_header 9) False 1239366615123000) ''station'' = Some (HStr ''ABC'')"
    using readSAC_strings [OF l example_header_read m1 g1, THEN conjunct1] by (simp add: s1)
  have 2: "stats (read_trace (example_header 9) False 1239366615123000) ''network'' = Some (HStr [])"
    using readSAC_strings [OF l example_header_read m2 g2, THEN conjunct1] by (simp add: s2)
  from 1 2 g1 g2 example_header_read show ?thesis by simp
qed

lemma writeSAC_single:
  "writeSAC [trace] p d =
     (case write_header trace of Inl e \<Rightarrow> (d, Some e) | Inr t \<Rightarrow> ((p, SacFile t) # d, None))"
  by (simp add: writeSAC_def WriteSacBinary_def Let_def split: prod.splits sum.splits)

lemma example_trace_writable: "writable (example_trace None)"
  by (simp add: writable_def example_trace_def write_start_def)

lemma splitext_run: "splitext ''run.sac'' = (''run'', ''.sac'')"
  by code_simp

text \<open>
  C7, as amended. When a sequence of traces that can be written is written to a path,
  nothing is raised, and the trace at index \<open>i\<close> goes to the file \<open>sac_path\<close> names:
  the requested path for \<open>i = 0\<close>, and for \<open>i > 0\<close> the path with the decimal index
  \<open>i\<close>, padded with zeros to at least two digits, between its base name and its
  extension. The index has exactly two digits for \<open>0 < i < 100\<close> and all its three
  or more digits from \<open>100\<close> on.
\<close>

theorem writeSAC_paths:
  assumes "\<forall>tr \<in> set stream. writable tr"
  shows "writeSAC stream filename d =
      (rev (map (\<lambda>(i, tr).
              (if i = 0 then filename
               else fst (splitext filename) @ zero_pad 2 i @ snd (splitext filename),
               SacFile (projr (write_header tr))))
         (zip [0..<length stream] stream)) @ d, None)
    \<and> fst (splitext filename) @ snd (splitext filename) = filename
    \<and> (\<forall>i. 0 < i \<and> i < 100 \<longrightarrow> zero_pad 2 i = [digit_char (i div 10), digit_char (i mod 10)])
    \<and> (\<forall>i. 100 \<le> i \<longrightarrow> zero_pad 2 i = decimal i \<and> 3 \<le> length (decimal i))"
proof -
  let ?base = "fst (splitext filename)"
  let ?ext = "snd (splitext filename)"
  have p: "(\<lambda>(i, tr). (sac_path filename ?base ?ext i, SacFile (projr (write_header tr)))) =
        (\<lambda>(i, tr). (if i = 0 then filename else ?base @ zero_pad 2 i @ ?ext,
               SacFile (projr (write_header tr))))"
    by (simp add: sac_path_def fun_eq_iff)
  have "writeSAC stream filename d = write_traces ?base ?ext stream 0 filename d"
    by (simp add: writeSAC_def case_prod_beta)
  also have "\<dots> =
      (rev (map (\<lambda>(i, tr). (sac_path filename ?base ?ext i, SacFile (projr (write_header tr))))
         (zip [0..<0 + length stream] stream)) @ d, None)"
    by (rule write_traces_ok [OF assms])
  finally have a: "writeSAC stream filename d =
      (rev (map (\<lambda>(i, tr). (if i = 0 then filename else ?base @ zero_pad 2 i @ ?ext,
               SacFile (projr (write_header tr))))
         (zip [0..<length stream] stream)) @ d, None)"
    unfolding p by simp
  have b: "\<forall>i. 0 < i \<and> i < 100 \<longrightarrow> zero_pad 2 i = [digit_char (i div 10), digit_char (i mod 10)]"
    using zero_pad_two_digits by blast
  have c: "\<forall>i. 100 \<le> i \<longrightarrow> zero_pad 2 i = decimal i \<and> 3 \<le> length (decimal i)"
    using zero_pad_long by blast
  from a splitext_concat [of filename] b c show ?thesis by (intro conjI)
qed

theorem writeSAC_paths_witness:
  "map fst (fst (writeSAC [example_trace None, example_trace None, example_trace None] ''run.sac'' []))
     = [''run02.sac'', ''run01.sac'', ''run.sac'']
   \<and> snd (writeSAC [example_trace None, example_trace None, example_trace None] ''run.sac'' []) = None"
proof -
  have w: "\<forall>tr \<in> set [example_trace None, example_trace None, example_trace None]. writable tr"
    by (simp add: example_trace_writable)
  have z: "zero_pad 2 (Suc 0) = ''01''" "zero_pad 2 (Suc (Suc 0)) = ''02''" by code_simp+
  show ?thesis
    using writeSAC_paths [OF w, of "''run.sac''" "[]", THEN conjunct1]
    by (simp add: splitext_run z)
qed

theorem writeSAC_paths_counterexample:
  "fst (hd (fst (writeSAC (replicate 101 (example_trace None)) ''run.sac'' []))) = ''run100.sac''"
proof -
  have w: "\<forall>tr \<in> set (replicate 101 (example_trace None)). writable tr"
    by (simp add: example_trace_writable)
  have "map fst (fst (writeSAC (replicate 101 (example_trace None)) ''run.sac'' [])) =
      rev (map (sac_path ''run.sac'' ''run'' ''.sac'') [0..<0 + 101]) @ map fst []"
    unfolding writeSAC_def splitext_run prod.case
    using write_traces_paths [OF w, of "''run''" "''.sac''" 0 "''run.sac''" "[]"] by simp
  also have "[0..<0 + 101] = [0..<100] @ [100::nat]"
    by (simp del: upt_Suc add: upt_Suc_append [symmetric])
  finally have m: "map fst (fst (writeSAC (replicate 101 (example_trace None)) ''run.sac'' [])) =
      sac_path ''run.sac'' ''run'' ''.sac'' 100 # rev (map (sac_path ''run.sac'' ''run'' ''.sac'') [0..<100])"
    by simp
  have z: "sac_path ''run.sac'' ''run'' ''.sac'' 100 = ''run100.sac''" by code_simp
  have "fst (writeSAC (replicate 101 (example_trace None)) ''run.sac'' []) \<noteq> []"
    using m by auto
  then have "fst (hd (fst (writeSAC (replicate 101 (example_trace None)) ''run.sac'' []))) =
      hd (map fst (fst (writeSAC (replicate 101 (example_trace None)) ''run.sac'' [])))"
    by (simp add: hd_map)
  with m z show ?thesis by simp
qed

lemma py_float_abc: "py_float (HStr ''abc'') = Inl ValueError"
  by code_simp

lemma SetHvalue_scale_abc: "SetHvalue t ''scale'' (HStr ''abc'') = Inl ValueError"
  by (simp add: SetHvalue_def py_float_abc del: py_float.simps)

text \<open>
  C8, as amended. In the two overlay passes of the writer a field that is absent from
  the metadata of the trace is skipped without error, and an error that arises while
  a field that is present is set (a type mismatch or an encoding failure) is swallowed
  as well, not propagated: in both cases the header stays as it was and the pass goes
  on with the fields that remain.
\<close>

theorem overlay_swallows_errors:
  "(stats trace k = None \<longrightarrow>
      overlay_common trace ((j, k) # rest) t = overlay_common trace rest t)
   \<and> (\<forall>v e. stats trace k = Some v \<and> SetHvalue t j v = Inl e \<longrightarrow>
         overlay_common trace ((j, k) # rest) t = overlay_common trace rest t)
   \<and> (sac_lookup trace i = None \<longrightarrow>
         overlay_extra trace (i # names) t = overlay_extra trace names t)
   \<and> (\<forall>v e. sac_lookup trace i = Some v \<and> SetHvalue t i v = Inl e \<longrightarrow>
         overlay_extra trace (i # names) t = overlay_extra trace names t)"
proof -
  have 1: "stats trace k = None \<longrightarrow>
      overlay_common trace ((j, k) # rest) t = overlay_common trace rest t"
    by simp
  have 2: "\<forall>v e. stats trace k = Some v \<and> SetHvalue t j v = Inl e \<longrightarrow>
         overlay_common trace ((j, k) # rest) t = overlay_common trace rest t"
    by simp
  have 3: "sac_lookup trace i = None \<longrightarrow>
         overlay_extra trace (i # names) t = overlay_extra trace names t"
    by (auto simp add: sac_lookup_def split: option.splits)
  have 4: "\<forall>v e. sac_lookup trace i = Some v \<and> SetHvalue t i v = Inl e \<longrightarrow>
         overlay_extra trace (i # names) t = overlay_extra trace names t"
    by (auto simp add: sac_lookup_def split: option.splits)
  from 1 2 3 4 show ?thesis by (intro conjI)
qed

theorem overlay_swallows_errors_witness:
  "stats ((example_trace None)\<lparr>stats := (stats (example_trace None))(''calib'' \<mapsto> HStr ''abc'')\<rparr>)
     ''calib'' = Some (HStr ''abc'')
   \<and> SetHvalue InitArrays ''scale'' (HStr ''abc'') = Inl ValueError
   \<and> overlay_common
       ((example_trace None)\<lparr>stats := (stats (example_trace None))(''calib'' \<mapsto> HStr ''abc'')\<rparr>)
       [(''scale'', ''calib'')] InitArrays = InitArrays
   \<and> stats (example_trace None) ''calib'' = None
   \<and> overlay_common (example_trace None) [(''scale'', ''calib'')] InitArrays = InitArrays"
proof -
  let ?tr = "(example_trace None)\<lparr>stats := (stats (example_trace None))(''calib'' \<mapsto> HStr ''abc'')\<rparr>"
  have a: "stats ?tr ''calib'' = Some (HStr ''abc'')" by simp
  have b: "SetHvalue InitArrays ''scale'' (HStr ''abc'') = Inl ValueError"
    by (rule SetHvalue_scale_abc)
  have c: "stats (example_trace None) ''calib'' = None" by (simp add: example_trace_def)
  have n: "\<And>tr. overlay_common tr [] InitArrays = InitArrays" by simp
  have 1: "overlay_common ?tr [(''scale'', ''calib'')] InitArrays = InitArrays"
    using overlay_swallows_errors [where trace = ?tr and k = "''calib''" and j = "''scale''"
        and t = InitArrays and rest = "[]",
        THEN conjunct2, THEN conjunct1, rule_format, of "HStr ''abc''" ValueError] a b
    unfolding n by blast
  have 2: "overlay_common (example_trace None) [(''scale'', ''calib'')] InitArrays = InitArrays"
    using overlay_swallows_errors [where trace = "example_trace None" and k = "''calib''"
        and j = "''scale''" and t = InitArrays and rest = "[]", THEN conjunct1] c
    unfolding n by blast
  from a b c 1 2 show ?thesis by (intro conjI)
qed

theorem overlay_propagates_counterexample:
  "stats ((example_trace None)\<lparr>stats := (stats (example_trace None))(''calib'' \<mapsto> HStr ''abc'')\<rparr>)
     ''calib'' = Some (HStr ''abc'')
   \<and> SetHvalue InitArrays ''scale'' (HStr ''abc'') = Inl ValueError
   \<and> snd (writeSAC
       [(example_trace None)\<lparr>stats := (stats (example_trace None))(''calib'' \<mapsto> HStr ''abc'')\<rparr>]
       ''a.sac'' []) = None"
proof -
  let ?tr = "(example_trace None)\<lparr>stats := (stats (example_trace None))(''calib'' \<mapsto> HStr ''abc'')\<rparr>"
  have "writable ?tr"
    by (simp add: writable_def example_trace_def write_start_def)
  then obtain t where "write_header ?tr = Inr t" by (auto simp add: writable_iff)
  then have "snd (writeSAC [?tr] ''a.sac'' []) = None" by (simp add: writeSAC_single)
  then show ?thesis using SetHvalue_scale_abc [of InitArrays] by simp
qed

lemma ReadSacFile_written:
  "hi t ''npts'' = int (length (seis t)) \<Longrightarrow> ReadSacFile ((p, SacFile t) # d) p = Inr t"
  by (simp add: ReadSacFile_def)

lemma try_int_HInt [simp]: "try_int (Some (HInt z)) old = z"
  by (simp add: try_int_def)

lemma try_int_None [simp]: "try_int None old = old"
  by (simp add: try_int_def)

lemma try_float_HFloat [simp]: "try_float (Some (HFloat r)) old = r"
  by (simp add: try_float_def)

lemma npts_consistent:
  "stats trace ''npts'' = None \<or> stats trace ''npts'' = Some (HInt (int (length (samples trace))))
   \<Longrightarrow> try_int (stats trace ''npts'') (int (length (samples trace))) = int (length (samples trace))"
  by auto

text \<open>
  C9. For a trace whose metadata declares an \<^verbatim>\<open>iztype\<close> other than \<open>11\<close> (so also
  one other than \<open>9\<close> and \<open>-12345\<close>, such as \<open>3\<close>), the write does not fail: the
  file gets that \<^verbatim>\<open>iztype\<close> and the reference time fields of the start time itself,
  which are the ones of the begin-time case, since they depend on the start time alone.
  Reading that file back fails with \<^verbatim>\<open>NotImplementedError\<close> when the \<^verbatim>\<open>iztype\<close> is
  not \<open>9\<close> or \<open>-12345\<close>.
\<close>

theorem writeSAC_other_iztype:
  assumes "stats trace ''delta'' = Some dv" and "py_float dv = Inr dr"
    and "sac_lookup trace ''iztype'' = Some (HInt z)" and "z \<noteq> 11"
  shows "\<exists>t. writeSAC [trace] p d = ((p, SacFile t) # d, None)
     \<and> hi t ''iztype'' = z
     \<and> hi t ''nzyear'' = utc_year (stats_starttime trace)
     \<and> hi t ''nzjday'' = utc_julday (stats_starttime trace)
     \<and> hi t ''nzhour'' = utc_hour (stats_starttime trace)
     \<and> hi t ''nzmin'' = utc_minute (stats_starttime trace)
     \<and> hi t ''nzsec'' = utc_second (stats_starttime trace)
     \<and> hi t ''nzmsec'' = utc_microsecond (stats_starttime trace) div 1000
     \<and> (z \<noteq> 9 \<and> z \<noteq> - 12345
         \<and> (stats trace ''npts'' = None
              \<or> stats trace ''npts'' = Some (HInt (int (length (samples trace))))) \<longrightarrow>
          readSAC ((p, SacFile t) # d) p False = Inl NotImplementedError)"
proof -
  have s: "write_start trace = Inr (stats_starttime trace)"
    using assms(3,4) by (simp add: write_start_cases)
  from write_header_ok [OF assms(1,2) s] obtain t where
    w: "write_header trace = Inr t" and se: "seis t = samples trace"
    and n: "hi t ''npts'' = try_int (stats trace ''npts'') (int (length (samples trace)))"
    and i: "hi t ''iztype'' = try_int (sac_lookup trace ''iztype'') (- 12345)"
    and f: "hi t ''nzyear'' = utc_year (stats_starttime trace)"
      "hi t ''nzjday'' = utc_julday (stats_starttime trace)"
      "hi t ''nzhour'' = utc_hour (stats_starttime trace)"
      "hi t ''nzmin'' = utc_minute (stats_starttime trace)"
      "hi t ''nzsec'' = utc_second (stats_starttime trace)"
      "hi t ''nzmsec'' = utc_microsecond (stats_starttime trace) div 1000"
    by blast
  have iz: "hi t ''iztype'' = z" using i assms(3) by simp
  have r: "z \<noteq> 9 \<and> z \<noteq> - 12345
         \<and> (stats trace ''npts'' = None
              \<or> stats trace ''npts'' = Some (HInt (int (length (samples trace))))) \<longrightarrow>
          readSAC ((p, SacFile t) # d) p False = Inl NotImplementedError"
  proof
    assume a: "z \<noteq> 9 \<and> z \<noteq> - 12345
         \<and> (stats trace ''npts'' = None
              \<or> stats trace ''npts'' = Some (HInt (int (length (samples trace)))))"
    then have "hi t ''npts'' = int (length (seis t))"
      using n se npts_consistent [of trace] by simp
    then have "(if False then ReadSacHeader ((p, SacFile t) # d) p
                else ReadSacFile ((p, SacFile t) # d) p) = Inr t"
      by (simp add: ReadSacFile_written)
    from readSAC_loaded [OF this] a assms(4) iz
    show "readSAC ((p, SacFile t) # d) p False = Inl NotImplementedError" by simp
  qed
  have "writeSAC [trace] p d = ((p, SacFile t) # d, None)"
    using w by (simp add: writeSAC_single)
  with iz f r show ?thesis by blast
qed

theorem writeSAC_other_iztype_witness:
  "\<exists>t. writeSAC [example_trace (Some [''iztype'' \<mapsto> HInt 3])] ''a.sac'' [] =
         ([(''a.sac'', SacFile t)], None)
     \<and> hi t ''iztype'' = 3
     \<and> hi t ''nzyear'' = 2009 \<and> hi t ''nzjday'' = 100 \<and> hi t ''nzhour'' = 12
     \<and> hi t ''nzmin'' = 30 \<and> hi t ''nzsec'' = 15 \<and> hi t ''nzmsec'' = 123
     \<and> readSAC [(''a.sac'', SacFile t)] ''a.sac'' False = Inl NotImplementedError"
proof -
  let ?tr = "example_trace (Some [''iztype'' \<mapsto> HInt 3])"
  have 1: "stats ?tr ''delta'' = Some (HFloat (1 / 2))" by (simp add: example_trace_def)
  have 2: "py_float (HFloat (1 / 2)) = Inr (1 / 2)" by simp
  have 3: "sac_lookup ?tr ''iztype'' = Some (HInt 3)"
    by (simp add: sac_lookup_def example_trace_def)
  have 4: "(3::int) \<noteq> 11" by simp
  have s: "stats_starttime ?tr = 1239366615123456" by (simp add: example_trace_def)
  have n: "stats ?tr ''npts'' = Some (HInt (int (length (samples ?tr))))"
    by (simp add: example_trace_def samples_def)
  have y: "utc_year 1239366615123456 = 2009" "utc_julday 1239366615123456 = 100"
    "utc_hour 1239366615123456 = 12" "utc_minute 1239366615123456 = 30"
    "utc_second 1239366615123456 = 15" "utc_microsecond 1239366615123456 div 1000 = 123"
    by code_simp+
  show ?thesis
    using writeSAC_other_iztype [OF 1 2 3 4, of "''a.sac''" "[]"] n
    unfolding s y by simp
qed

text \<open>
  C1. For a trace whose \<^verbatim>\<open>iztype\<close> is \<open>9\<close>, the sentinel \<open>-12345\<close> or absent,
  writing it as the only trace to a path and reading that path back gives a trace with
  the same samples and with the start time cut to milliseconds. The trace is one of the
  data model: it has samples and a \<^verbatim>\<open>delta\<close>, and its \<^verbatim>\<open>npts\<close>, if present, is the
  number of its samples.
\<close>

theorem write_read_roundtrip:
  assumes "stats trace ''delta'' = Some dv" and "py_float dv = Inr dr"
    and "data trace = Some xs"
    and "stats trace ''npts'' = None \<or> stats trace ''npts'' = Some (HInt (int (length xs)))"
    and "sac_lookup trace ''iztype'' = None \<or> sac_lookup trace ''iztype'' = Some (HInt 9)
         \<or> sac_lookup trace ''iztype'' = Some (HInt (- 12345))"
  shows "snd (writeSAC [trace] p d) = None
     \<and> (\<exists>tr'. readSAC (fst (writeSAC [trace] p d)) p False = Inr [tr']
           \<and> data tr' = Some xs
           \<and> stats_starttime tr' = stats_starttime trace div 1000 * 1000)"
proof -
  have sm: "samples trace = xs" using assms(3) by (simp add: samples_def)
  have s: "write_start trace = Inr (stats_starttime trace)"
    using assms(5) by (auto simp add: write_start_cases)
  from write_header_ok [OF assms(1,2) s] obtain t where
    w: "write_header trace = Inr t" and se: "seis t = samples trace"
    and n: "hi t ''npts'' = try_int (stats trace ''npts'') (int (length (samples trace)))"
    and i: "hi t ''iztype'' = try_int (sac_lookup trace ''iztype'') (- 12345)"
    and st: "starttime t = stats_starttime trace div 1000 * 1000"
    by blast
  have iz: "hi t ''iztype'' = 9 \<or> hi t ''iztype'' = - 12345"
    using i assms(5) by auto
  have "hi t ''npts'' = int (length (seis t))"
    using n se sm assms(4) by auto
  then have l: "(if False then ReadSacHeader ((p, SacFile t) # d) p
                else ReadSacFile ((p, SacFile t) # d) p) = Inr t"
    by (simp add: ReadSacFile_written)
  have wr: "writeSAC [trace] p d = ((p, SacFile t) # d, None)"
    using w by (simp add: writeSAC_single)
  have "readSAC ((p, SacFile t) # d) p False = Inr [read_trace t False (starttime t)]"
    unfolding readSAC_loaded [OF l] using iz by auto
  then show ?thesis
    unfolding wr by (simp add: read_trace_def se sm st)
qed

theorem write_read_roundtrip_witness:
  "snd (writeSAC [example_trace (Some [''iztype'' \<mapsto> HInt 9])] ''a.sac'' []) = None
   \<and> (\<exists>tr'. readSAC (fst (writeSAC [example_trace (Some [''iztype'' \<mapsto> HInt 9])] ''a.sac'' []))
                ''a.sac'' False = Inr [tr']
         \<and> data tr' = Some [1, 2]
         \<and> stats_starttime tr' = 1239366615123000)
   \<and> snd (writeSAC [example_trace None] ''a.sac'' []) = None
   \<and> (\<exists>tr'. readSAC (fst (writeSAC [example_trace None] ''a.sac'' [])) ''a.sac'' False = Inr [tr']
         \<and> data tr' = Some [1, 2]
         \<and> stats_starttime tr' = 1239366615123000)"
proof -
  have 1: "\<And>e. stats (example_trace e) ''delta'' = Some (HFloat (1 / 2))"
    by (simp add: example_trace_def)
  have 2: "py_float (HFloat (1 / 2)) = Inr (1 / 2)" by simp
  have 3: "\<And>e. data (example_trace e) = Some [1, 2]" by (simp add: example_trace_def)
  have 4: "\<And>e. stats (example_trace e) ''npts'' = None
      \<or> stats (example_trace e) ''npts'' = Some (HInt (int (length [1, 2 :: real])))"
    by (simp add: example_trace_def)
  have 5: "sac_lookup (example_trace (Some [''iztype'' \<mapsto> HInt 9])) ''iztype'' = None
      \<or> sac_lookup (example_trace (Some [''iztype'' \<mapsto> HInt 9])) ''iztype'' = Some (HInt 9)
      \<or> sac_lookup (example_trace (Some [''iztype'' \<mapsto> HInt 9])) ''iztype'' = Some (HInt (- 12345))"
    by (simp add: sac_lookup_def example_trace_def)
  have 6: "sac_lookup (example_trace None) ''iztype'' = None
      \<or> sac_lookup (example_trace None) ''iztype'' = Some (HInt 9)
      \<or> sac_lookup (example_trace None) ''iztype'' = Some (HInt (- 12345))"
    by (simp add: sac_lookup_def example_trace_def)
  have s: "\<And>e. stats_starttime (example_trace e) div 1000 * 1000 = 1239366615123000"
    by (simp add: example_trace_def)
  show ?thesis
    using write_read_roundtrip [OF 1 2 3 4 5, of "''a.sac''" "[]"]
      write_read_roundtrip [OF 1 2 3 4 6, of "''a.sac''" "[]"]
    unfolding s by simp
qed

text \<open>
  C4. For a trace whose metadata declares \<^verbatim>\<open>iztype == 11\<close> with a float offset
  \<open>b\<close>, writing it (which subtracts \<open>b\<close> from the start time before the reference
  time fields are encoded) and reading the file back (which adds \<open>b\<close>) gives the
  reference time, cut to milliseconds, plus \<open>b\<close>: the original start time up to the
  milliseconds cut off the encoded reference time, that is at most the original, less
  than a millisecond before it, and equal to it when the reference time is a whole
  number of milliseconds.
\<close>

theorem origin_time_roundtrip:
  assumes "stats trace ''delta'' = Some dv" and "py_float dv = Inr dr"
    and "stats trace ''npts'' = None
         \<or> stats trace ''npts'' = Some (HInt (int (length (samples trace))))"
    and "sac_lookup trace ''iztype'' = Some (HInt 11)"
    and "sac_lookup trace ''b'' = Some (HFloat b)"
  shows "snd (writeSAC [trace] p d) = None
     \<and> (\<exists>tr'. readSAC (fst (writeSAC [trace] p d)) p False = Inr [tr']
           \<and> stats_starttime tr' = utc_add (utc_sub (stats_starttime trace) b div 1000 * 1000) b
           \<and> stats_starttime tr' \<le> stats_starttime trace
           \<and> stats_starttime trace - stats_starttime tr' < 1000
           \<and> (utc_sub (stats_starttime trace) b mod 1000 = 0 \<longrightarrow>
                stats_starttime tr' = stats_starttime trace))"
proof -
  let ?r = "utc_sub (stats_starttime trace) b"
  have s: "write_start trace = Inr ?r"
    using assms(4,5) by (simp add: write_start_cases)
  from write_header_ok [OF assms(1,2) s] obtain t where
    w: "write_header trace = Inr t" and se: "seis t = samples trace"
    and n: "hi t ''npts'' = try_int (stats trace ''npts'') (int (length (samples trace)))"
    and i: "hi t ''iztype'' = try_int (sac_lookup trace ''iztype'') (- 12345)"
    and b: "hf t ''b'' = try_float (sac_lookup trace ''b'') 0"
    and st: "starttime t = ?r div 1000 * 1000"
    by blast
  have iz: "hi t ''iztype'' = 11" using i assms(4) by simp
  have bb: "hf t ''b'' = b" using b assms(5) by simp
  have "hi t ''npts'' = int (length (seis t))"
    using n se npts_consistent [OF assms(3)] by simp
  then have l: "(if False then ReadSacHeader ((p, SacFile t) # d) p
                else ReadSacFile ((p, SacFile t) # d) p) = Inr t"
    by (simp add: ReadSacFile_written)
  have wr: "writeSAC [trace] p d = ((p, SacFile t) # d, None)"
    using w by (simp add: writeSAC_single)
  have rd: "readSAC ((p, SacFile t) # d) p False =
      Inr [read_trace t False (utc_add (?r div 1000 * 1000) b)]"
    unfolding readSAC_loaded [OF l] using iz by (simp add: bb st)
  define k where "k = us_of_seconds b"
  define m where "m = ?r mod 1000"
  have e: "?r div 1000 * 1000 = ?r - m" unfolding m_def by (simp add: minus_mod_eq_div_mult)
  have mb: "0 \<le> m" "m < 1000" unfolding m_def by simp_all
  have rr: "?r = stats_starttime trace - k" by (simp add: utc_sub_def k_def)
  have v: "utc_add (?r div 1000 * 1000) b = stats_starttime trace - m"
    unfolding e by (simp add: utc_add_def rr k_def)
  let ?tr = "read_trace t False (utc_add (?r div 1000 * 1000) b)"
  have q: "stats_starttime ?tr = stats_starttime trace - m"
    using v by (simp add: read_trace_def)
  have "readSAC (fst (writeSAC [trace] p d)) p False = Inr [?tr]
      \<and> stats_starttime ?tr = utc_add (?r div 1000 * 1000) b
      \<and> stats_starttime ?tr \<le> stats_starttime trace
      \<and> stats_starttime trace - stats_starttime ?tr < 1000
      \<and> (?r mod 1000 = 0 \<longrightarrow> stats_starttime ?tr = stats_starttime trace)"
    unfolding q using mb v rd by (simp add: wr m_def [symmetric])
  then have "\<exists>tr'. readSAC (fst (writeSAC [trace] p d)) p False = Inr [tr']
      \<and> stats_starttime tr' = utc_add (?r div 1000 * 1000) b
      \<and> stats_starttime tr' \<le> stats_starttime trace
      \<and> stats_starttime trace - stats_starttime tr' < 1000
      \<and> (?r mod 1000 = 0 \<longrightarrow> stats_starttime tr' = stats_starttime trace)"
    by (rule exI)
  moreover have "snd (writeSAC [trace] p d) = None" by (simp add: wr)
  ultimately show ?thesis by (intro conjI)
qed

theorem origin_time_roundtrip_witness:
  "snd (writeSAC [example_trace (Some [''iztype'' \<mapsto> HInt 11, ''b'' \<mapsto> HFloat (3 / 2)])]
      ''a.sac'' []) = None
   \<and> (\<exists>tr'. readSAC (fst (writeSAC
         [example_trace (Some [''iztype'' \<mapsto> HInt 11, ''b'' \<mapsto> HFloat (3 / 2)])] ''a.sac'' []))
         ''a.sac'' False = Inr [tr']
       \<and> stats_starttime tr' = 1239366615123000)"
proof -
  let ?tr = "example_trace (Some [''iztype'' \<mapsto> HInt 11, ''b'' \<mapsto> HFloat (3 / 2)])"
  have 1: "stats ?tr ''delta'' = Some (HFloat (1 / 2))" by (simp add: example_trace_def)
  have 2: "py_float (HFloat (1 / 2)) = Inr (1 / 2)" by simp
  have 3: "stats ?tr ''npts'' = None
      \<or> stats ?tr ''npts'' = Some (HInt (int (length (samples ?tr))))"
    by (simp add: example_trace_def samples_def)
  have 4: "sac_lookup ?tr ''iztype'' = Some (HInt 11)"
    by (simp add: sac_lookup_def example_trace_def)
  have 5: "sac_lookup ?tr ''b'' = Some (HFloat (3 / 2))"
    by (simp add: sac_lookup_def example_trace_def)
  have s: "utc_add (utc_sub (stats_starttime ?tr) (3 / 2) div 1000 * 1000) (3 / 2) = 1239366615123000"
    by (simp add: example_trace_def utc_add_def utc_sub_def us_of_seconds_def)
  show ?thesis
    using origin_time_roundtrip [OF 1 2 3 4 5, of "''a.sac''" "[]"]
    unfolding s by blast
qed

end
